theory Spec2Isabelle
  imports Complex_Main
begin

section \<open>JavaScript strings\<close>

text \<open>
  A JavaScript string is modelled as a HOL \<open>string\<close>: a list of 8-bit code units, read as
  the Latin-1 range of UTF-16. A string is truthy exactly when it is not empty.
\<close>

definition nl :: char where
  "nl = CHR 0x0A"

text \<open>The code units below 256 that \<^verbatim>\<open>String.prototype.trim\<close> strips: tab, line feed,
  vertical tab, form feed, carriage return, space and no-break space.\<close>

definition js_whitespace :: "char \<Rightarrow> bool" where
  "js_whitespace c = (c \<in> set [CHR 0x09, CHR 0x0A, CHR 0x0B, CHR 0x0C, CHR 0x0D, CHR 0x20, CHR 0xA0])"

text \<open>\<^verbatim>\<open>s.trim()\<close>: whitespace is removed from both ends.\<close>

definition trim :: "string \<Rightarrow> string" where
  "trim s = rev (dropWhile js_whitespace (rev (dropWhile js_whitespace s)))"

text \<open>\<^verbatim>\<open>s.split(sep)\<close> for a one-character separator: always at least one piece, and
  \<^verbatim>\<open>"".split("\n")\<close> is \<^verbatim>\<open>[""]\<close>.\<close>

fun split :: "char \<Rightarrow> string \<Rightarrow> string list" where
  "split sep [] = [[]]"
| "split sep (c # cs) =
     (if c = sep then [] # split sep cs
      else (case split sep cs of
              [] \<Rightarrow> [[c]]
            | l # ls \<Rightarrow> (c # l) # ls))"

text \<open>\<^verbatim>\<open>xs.join(sep)\<close>.\<close>

fun join :: "string \<Rightarrow> string list \<Rightarrow> string" where
  "join sep [] = []"
| "join sep [x] = x"
| "join sep (x # y # ys) = x @ sep @ join sep (y # ys)"

text \<open>\<^verbatim>\<open>s.startsWith(p)\<close> and \<^verbatim>\<open>s.includes(sub)\<close> (\<open>includes\<close> is reserved in Isabelle).\<close>

fun startsWith :: "string \<Rightarrow> string \<Rightarrow> bool" where
  "startsWith s [] = True"
| "startsWith [] (p # ps) = False"
| "startsWith (c # cs) (p # ps) = (c = p \<and> startsWith cs ps)"

fun js_includes :: "string \<Rightarrow> string \<Rightarrow> bool" where
  "js_includes [] sub = (sub = [])"
| "js_includes (c # cs) sub = (startsWith (c # cs) sub \<or> js_includes cs sub)"

text \<open>\<^verbatim>\<open>s.toLowerCase()\<close> on Latin-1 code units: A-Z and the accented capitals
  (0xC0-0xDE without the multiplication sign 0xD7) move up by 32.\<close>

definition toLowerChar :: "char \<Rightarrow> char" where
  "toLowerChar c =
     (let n = (of_char c :: nat)
      in if (65 \<le> n \<and> n \<le> 90) \<or> (192 \<le> n \<and> n \<le> 222 \<and> n \<noteq> 215)
         then char_of (n + 32) else c)"

definition toLowerCase :: "string \<Rightarrow> string" where
  "toLowerCase s = map toLowerChar s"

text \<open>The decimal rendering of a number inside a template literal.\<close>

definition digit_char :: "nat \<Rightarrow> char" where
  "digit_char d = char_of (48 + d)"

fun show_nat :: "nat \<Rightarrow> string" where
  "show_nat n = (if n < 10 then [digit_char n] else show_nat (n div 10) @ [digit_char (n mod 10)])"

declare show_nat.simps [simp del]

text \<open>\<^verbatim>\<open>a || b\<close> on optional strings: \<open>None\<close> (null, undefined) and the empty string are
  falsy.\<close>

definition truthy :: "string option \<Rightarrow> bool" where
  "truthy v = (case v of None \<Rightarrow> False | Some s \<Rightarrow> s \<noteq> [])"

definition or_else :: "string option \<Rightarrow> string \<Rightarrow> string" where
  "or_else v d = (case v of None \<Rightarrow> d | Some s \<Rightarrow> if s = [] then d else s)"

section \<open>Suggestion post-processing (generateCopySuggestions, lines 710-722)\<close>

definition placeholder :: string where
  "placeholder = ''Unable to generate suggestions at this time.''"

text \<open>\<^verbatim>\<open>content.split('\n').map(line => line.trim()).filter(line => line.length > 0).slice(0, 3)\<close>\<close>

definition suggestions_of :: "string \<Rightarrow> string list" where
  "suggestions_of content = take 3 (filter (\<lambda>line. length line > 0) (map trim (split nl content)))"

text \<open>\<^verbatim>\<open>return suggestions.length > 0 ? suggestions : ['Unable to generate ...']\<close>\<close>

definition postprocess :: "string \<Rightarrow> string list" where
  "postprocess content =
     (let suggestions = suggestions_of content
      in if length suggestions > 0 then suggestions else [placeholder])"

section \<open>Prompt composer (generateCopySuggestions, lines 519-640)\<close>

record CopyContext =
  mode :: string
  userType :: "string option"
  errorType :: "string option"
  canFix :: "string option"
  surface :: "string option"

text \<open>The part of \<^verbatim>\<open>process.env\<close> the handlers read. An unset variable is \<open>None\<close>.\<close>

record environment =
  OPENROUTER_API_KEY :: "string option"
  NEXT_PUBLIC_APP_URL :: "string option"
  NEXT_PUBLIC_SUPABASE_URL :: "string option"
  SUPABASE_SERVICE_ROLE_KEY :: "string option"
  NODE_ENV :: "string option"

text \<open>\<^verbatim>\<open>context?.mode\<close>: undefined when no context is passed.\<close>

definition context_mode :: "CopyContext option \<Rightarrow> string option" where
  "context_mode context = map_option mode context"

text \<open>\<^verbatim>\<open>context.userType || 'unknown'\<close> and its siblings, inside a branch where the
  context is present.\<close>

definition context_field :: "(CopyContext \<Rightarrow> string option) \<Rightarrow> CopyContext option \<Rightarrow> string" where
  "context_field f context = (case context of None \<Rightarrow> ''unknown'' | Some c \<Rightarrow> or_else (f c) ''unknown'')"

text \<open>A template literal that spans several source lines is the join of its lines.\<close>

definition template :: "string list \<Rightarrow> string" where
  "template ls = join [nl] ls"

definition closing_copy :: string where
  "closing_copy = ''Always provide exactly 2-3 improved alternatives. Each suggestion should be on a new line. Do not include numbers, bullets, or extra formatting - just the clean copy suggestions.''"

definition improve_copy_prompt :: "string \<Rightarrow> string" where
  "improve_copy_prompt productInstructions = template
     [''You are an expert UX copywriter specializing in improving existing UI copy. '' @ productInstructions,
      [],
      ''Your task is to improve existing UI copy to make it clearer, more helpful, and more user-friendly.'',
      [],
      closing_copy]"

definition write_new_prompt :: "string \<Rightarrow> CopyContext option \<Rightarrow> string" where
  "write_new_prompt productInstructions context = template
     [''You are an expert UX copywriter specializing in writing new error messages. '' @ productInstructions,
      [],
      ''Your task is to create new error message copy based on the context provided:'',
      ''- User type: '' @ context_field userType context,
      ''- Error type: '' @ context_field errorType context,
      ''- Can user fix this: '' @ context_field canFix context,
      ''- Display surface: '' @ context_field surface context,
      [],
      ''Consider these factors when writing the error message:'',
      ''- Be specific about what went wrong'',
      ''- Provide clear next steps if the user can fix it'',
      ''- Match the tone to the user type and severity'',
      ''- Keep it appropriate for the display context'',
      [],
      ''Always provide exactly 2-3 new error message alternatives. Each suggestion should be on a new line. Do not include numbers, bullets, or extra formatting - just the clean copy suggestions.'']"

definition suggest_pattern_prompt :: "string \<Rightarrow> CopyContext option \<Rightarrow> string" where
  \<open>suggest_pattern_prompt productInstructions context = template
     [''You are an expert UX designer specializing in error handling patterns and information architecture. '' @ productInstructions,
      [],
      ''Your task is to recommend design patterns for displaying error information based on:'',
      ''- User type: '' @ context_field userType context,
      ''- Display surface: '' @ context_field surface context,
      [],
      ''Provide 2-3 specific design pattern recommendations that include:'',
      ''- Pattern name (e.g., "Inline validation", "Error banner")'',
      ''- When to use it'',
      ''- Visual/interaction details'',
      ''- Why it'' @ [CHR 0x27] @ ''s appropriate for this context'',
      [],
      ''Format each recommendation as a complete suggestion on a new line. Do not include numbers, bullets, or extra formatting.'']\<close>

text \<open>The last \<^verbatim>\<open>else\<close> branch, commented "Fallback to original behavior".\<close>

definition fallback_prompt :: "string \<Rightarrow> string" where
  "fallback_prompt productInstructions = template
     [''You are an expert UX copywriter. '' @ productInstructions,
      [],
      closing_copy]"

text \<open>Lines 546-589: the system prompt chosen by the mode.\<close>

definition basePrompt :: "string \<Rightarrow> CopyContext option \<Rightarrow> string" where
  "basePrompt productInstructions context =
     (if context_mode context = Some ''improve_copy'' then improve_copy_prompt productInstructions
      else if context_mode context = Some ''write_new'' then write_new_prompt productInstructions context
      else if context_mode context = Some ''suggest_pattern'' then suggest_pattern_prompt productInstructions context
      else fallback_prompt productInstructions)"

definition reference_instruction :: string where
  "reference_instruction = template
     [[],
      [],
      ''IMPORTANT: Reference documents have been provided that contain examples, style guides, or brand guidelines for this product. Please review these files and ensure your suggestions align with the established tone, style, and patterns shown in the reference materials.'']"

text \<open>\<^verbatim>\<open>referenceFileUrls && referenceFileUrls.length > 0\<close>\<close>

definition has_references :: "string list option \<Rightarrow> bool" where
  "has_references referenceFileUrls =
     (case referenceFileUrls of None \<Rightarrow> False | Some urls \<Rightarrow> length urls > 0)"

text \<open>Lines 591-595: the system prompt after the optional extension.\<close>

definition systemPrompt :: "string \<Rightarrow> string list option \<Rightarrow> CopyContext option \<Rightarrow> string" where
  "systemPrompt productInstructions referenceFileUrls context =
     (if has_references referenceFileUrls
      then basePrompt productInstructions context @ reference_instruction
      else basePrompt productInstructions context)"

datatype role = System | User

datatype content_part = TextPart string | ImageUrlPart string

datatype message_content = Plain string | Parts "content_part list"

record message =
  role :: role
  content :: message_content

text \<open>\<^verbatim>\<open>process.env.NEXT_PUBLIC_APP_URL || 'http://localhost:3000'\<close>\<close>

definition app_url :: "environment \<Rightarrow> string" where
  "app_url env = or_else (NEXT_PUBLIC_APP_URL env) ''http://localhost:3000''"

text \<open>Line 610: one numbered line per reference file, the base URL put in front of each.\<close>

definition reference_line :: "environment \<Rightarrow> nat \<times> string \<Rightarrow> string" where
  "reference_line env = (\<lambda>(index, url). show_nat (index + 1) @ ''. '' @ app_url env @ url)"

definition reference_content :: "environment \<Rightarrow> string list \<Rightarrow> string" where
  "reference_content env urls = template
     [''Reference documents for context (please review these for tone and style guidance):'',
      join [nl] (map (reference_line env) (enumerate 0 urls))]"

text \<open>Lines 615-630: the text of the main request.\<close>

definition userMessageText :: "string \<Rightarrow> CopyContext option \<Rightarrow> string" where
  \<open>userMessageText badCopy context =
     (if context_mode context = Some ''improve_copy''
        then ''Please improve this UI copy: "'' @ badCopy @ ''"''
      else if context_mode context = Some ''write_new''
        then (if badCopy \<noteq> []
              then ''Please write new error message copy for this context. Current copy (if any): "'' @ badCopy @ ''"''
              else ''Please write new error message copy for this context.'')
      else if context_mode context = Some ''suggest_pattern''
        then (if badCopy \<noteq> []
              then ''Please suggest design patterns for displaying error information. Context description: "'' @ badCopy @ ''"''
              else ''Please suggest design patterns for displaying error information in this context.'')
      else ''Please improve this UI copy: "'' @ badCopy @ ''"'')\<close>

text \<open>Lines 632-640: with a (truthy) image the content is a text part and an image part.\<close>

definition userContent :: "string \<Rightarrow> string option \<Rightarrow> CopyContext option \<Rightarrow> message_content" where
  "userContent badCopy imageBase64 context =
     (case imageBase64 of
        None \<Rightarrow> Plain (userMessageText badCopy context)
      | Some img \<Rightarrow>
          if img \<noteq> []
          then Parts [TextPart (userMessageText badCopy context),
                      ImageUrlPart (''data:image/jpeg;base64,'' @ img)]
          else Plain (userMessageText badCopy context))"

text \<open>Lines 597-640: the array \<^verbatim>\<open>messages\<close> after both pushes.\<close>

definition buildMessages ::
  "environment \<Rightarrow> string \<Rightarrow> string \<Rightarrow> string option \<Rightarrow> string list option \<Rightarrow> CopyContext option \<Rightarrow> message list" where
  "buildMessages env badCopy productInstructions imageBase64 referenceFileUrls context =
     [\<lparr>role = System, content = Plain (systemPrompt productInstructions referenceFileUrls context)\<rparr>]
     @ (case referenceFileUrls of
          None \<Rightarrow> []
        | Some urls \<Rightarrow>
            if length urls > 0
            then [\<lparr>role = User, content = Plain (reference_content env urls)\<rparr>]
            else [])
     @ [\<lparr>role = User, content = userContent badCopy imageBase64 context\<rparr>]"

section \<open>Suggestion generator (generateCopySuggestions, lines 527-738)\<close>

text \<open>What a \<^verbatim>\<open>throw\<close> carries: an \<^verbatim>\<open>Error\<close> with its message, or a value that is not an
  \<^verbatim>\<open>Error\<close>.\<close>

datatype thrown = JsError string | NonError

text \<open>The parsed body. It is declared as \<^verbatim>\<open>OpenRouterResponse\<close>, but \<^verbatim>\<open>response.json()\<close>
  gives whatever was sent: the body may be \<^verbatim>\<open>null\<close>, it may have no \<^verbatim>\<open>choices\<close>, and the
  fields read through \<^verbatim>\<open>?.\<close> may be absent.\<close>

datatype choice_message = ChoiceMessage "string option"

datatype choice = Choice "choice_message option"

datatype response_data = NullBody | NoChoices | Choices "choice list"

text \<open>A response of \<^verbatim>\<open>fetch\<close>: reading its body as text or as JSON may throw.\<close>

record http_response =
  status :: nat
  statusText :: string
  text_result :: "thrown + string"
  json_result :: "thrown + response_data"

datatype fetch_outcome = FetchThrows thrown | FetchReturns http_response

record chat_request =
  request_url :: string
  authorization :: string
  http_referer :: string
  x_title :: string
  request_model :: string
  request_messages :: "message list"
  temperature :: rat
  max_tokens :: nat

text \<open>What a call of \<^verbatim>\<open>generateCopySuggestions\<close> leaves behind: the requests it sent and
  either the error it threw or the list it returned.\<close>

record generation =
  network_calls :: "chat_request list"
  outcome :: "thrown + string list"

text \<open>\<^verbatim>\<open>response.ok\<close>\<close>

definition response_ok :: "http_response \<Rightarrow> bool" where
  "response_ok r = (200 \<le> status r \<and> status r \<le> 299)"

text \<open>\<^verbatim>\<open>data.choices[0]?.message?.content\<close>\<close>

definition first_content :: "choice list \<Rightarrow> string option" where
  "first_content choices =
     (case choices of
        [] \<Rightarrow> None
      | Choice m # _ \<Rightarrow> (case m of None \<Rightarrow> None | Some (ChoiceMessage c) \<Rightarrow> c))"

text \<open>Lines 675-689: the error for a response that is not ok.\<close>

definition status_error :: "http_response \<Rightarrow> thrown" where
  "status_error r =
     (if status r = 401 then JsError ''OpenRouter API authentication failed - invalid API key''
      else if status r = 429 then JsError ''OpenRouter API rate limit exceeded - please try again later''
      else if status r = 500 then JsError ''OpenRouter API server error - please try again''
      else JsError (''OpenRouter API error: '' @ show_nat (status r) @ '' '' @ statusText r))"

text \<open>Lines 692-698 read \<^verbatim>\<open>data.choices\<close> and then \<^verbatim>\<open>data.choices[0]\<close> with no \<^verbatim>\<open>?.\<close>: on
  a \<^verbatim>\<open>null\<close> body, and on a body without \<^verbatim>\<open>choices\<close>, the runtime throws a
  \<^verbatim>\<open>TypeError\<close>. The messages are the ones of V8.\<close>

definition null_body_error :: thrown where
  "null_body_error = JsError (''Cannot read properties of null (reading '' @ [CHR 0x27] @ ''choices'' @ [CHR 0x27] @ '')'')"

definition no_choices_error :: thrown where
  "no_choices_error = JsError (''Cannot read properties of undefined (reading '' @ [CHR 0x27] @ ''0'' @ [CHR 0x27] @ '')'')"

text \<open>Lines 675-722: what the \<^verbatim>\<open>try\<close> block does with a response.\<close>

definition handle_response :: "http_response \<Rightarrow> thrown + string list" where
  "handle_response r =
     (if \<not> response_ok r then
        (case text_result r of
           Inl e \<Rightarrow> Inl e
         | Inr errorText \<Rightarrow> Inl (status_error r))
      else
        (case json_result r of
           Inl e \<Rightarrow> Inl e
         | Inr NullBody \<Rightarrow> Inl null_body_error
         | Inr NoChoices \<Rightarrow> Inl no_choices_error
         | Inr (Choices choices) \<Rightarrow>
             (case first_content choices of
                None \<Rightarrow> Inl (JsError ''No response content from OpenRouter API'')
              | Some c \<Rightarrow>
                  if c = [] then Inl (JsError ''No response content from OpenRouter API'')
                  else Inr (postprocess c))))"

text \<open>Lines 723-738: the \<^verbatim>\<open>catch\<close> block, which sees every error thrown inside the
  \<^verbatim>\<open>try\<close> block, the ones of lines 681-702 included.\<close>

definition rethrow :: "thrown \<Rightarrow> thrown" where
  "rethrow error =
     (case error of
        JsError m \<Rightarrow>
          if js_includes m ''fetch''
            then JsError ''Network error: Unable to reach OpenRouter API. Please check your internet connection.''
          else if js_includes m ''JSON''
            then JsError ''OpenRouter API returned invalid response format.''
          else error
      | NonError \<Rightarrow> JsError ''Unknown error occurred while generating copy suggestions.'')"

text \<open>Lines 650-667: the request sent to the chat-completion API.\<close>

definition chat_request_of :: "environment \<Rightarrow> string \<Rightarrow> message list \<Rightarrow> chat_request" where
  "chat_request_of env apiKey messages =
     \<lparr>request_url = ''https://openrouter.ai/api/v1/chat/completions'',
      authorization = ''Bearer '' @ apiKey,
      http_referer = app_url env,
      x_title = ''CopyFixer'',
      request_model = ''openai/gpt-4o'',
      request_messages = messages,
      temperature = 7 / 10,
      max_tokens = 1000\<rparr>"

definition missing_key :: generation where
  "missing_key = \<lparr>network_calls = [], outcome = Inl (JsError ''OpenRouter API key not configured'')\<rparr>"

definition generateCopySuggestions ::
  "environment \<Rightarrow> (chat_request \<Rightarrow> fetch_outcome) \<Rightarrow> string \<Rightarrow> string \<Rightarrow> string option \<Rightarrow>
   string list option \<Rightarrow> CopyContext option \<Rightarrow> generation" where
  "generateCopySuggestions env fetch badCopy productInstructions imageBase64 referenceFileUrls context =
     (case OPENROUTER_API_KEY env of
        None \<Rightarrow> missing_key
      | Some apiKey \<Rightarrow>
          if apiKey = [] then missing_key
          else
            let messages = buildMessages env badCopy productInstructions imageBase64 referenceFileUrls context;
                request = chat_request_of env apiKey messages;
                attempt = (case fetch request of
                             FetchThrows e \<Rightarrow> Inl e
                           | FetchReturns response \<Rightarrow> handle_response response)
            in \<lparr>network_calls = [request],
                outcome = (case attempt of Inl e \<Rightarrow> Inl (rethrow e) | Inr suggestions \<Rightarrow> Inr suggestions)\<rparr>)"

section \<open>HTTP replies and the datastore\<close>

datatype json =
    JNull
  | JBool bool
  | JNum nat
  | JString string
  | JArray "json list"
  | JObject "(string \<times> json) list"

text \<open>\<^verbatim>\<open>NextResponse.json(body, { status })\<close>; the status is 200 when none is given.\<close>

record reply =
  reply_status :: nat
  reply_body :: json

definition respond :: "nat \<Rightarrow> json \<Rightarrow> reply" where
  "respond st b = \<lparr>reply_status = st, reply_body = b\<rparr>"

definition error_body :: "string \<Rightarrow> json" where
  "error_body msg = JObject [(''error'', JString msg)]"

text \<open>The interfaces of \<^verbatim>\<open>lib/supabase.ts\<close> and the tables of the README's schema. The
  column \<^verbatim>\<open>reference_files\<close> may hold no value.\<close>

record ReferenceFile =
  rf_id :: string
  rf_name :: string
  rf_size :: nat
  rf_type :: string
  rf_url :: string
  rf_uploadedAt :: string

record ProductType =
  pt_id :: string
  pt_name :: string
  pt_instructions :: string
  pt_reference_files :: "ReferenceFile list option"
  pt_created_at :: string

record Submission =
  sub_id :: string
  bad_copy :: string
  product_type_id :: string
  suggestions :: "string list"
  has_screenshot :: bool
  user_session :: string
  sub_created_at :: string

record datastore =
  product_types :: "ProductType list"
  submissions :: "Submission list"

text \<open>The \<^verbatim>\<open>error\<close> half of a datastore answer. \<open>err_is_Error\<close> says whether the object
  passes \<^verbatim>\<open>instanceof Error\<close>, which the handlers test when they report it. The errors the
  client builds from an answer of the database are plain objects and do not pass it.\<close>

record db_error =
  err_code :: string
  err_message :: string
  err_details :: "string option"
  err_is_Error :: bool

text \<open>An awaited datastore call either throws or answers \<^verbatim>\<open>{ data, error }\<close>.\<close>

datatype 'a call = Threw thrown | Answered "'a option" "db_error option"

text \<open>A call may fail for a reason outside the tables (connection, permissions, a column the
  schema lacks): the failure, when there is one, is given with the call and leaves the tables as
  they are.\<close>

datatype fault = Works | Fails db_error | Throws thrown

definition not_single :: db_error where
  "not_single = \<lparr>err_code = ''PGRST116'',
                  err_message = ''JSON object requested, multiple (or no) rows returned'',
                  err_details = None, err_is_Error = False\<rparr>"

text \<open>\<^verbatim>\<open>.single()\<close>: exactly one row, or the error PGRST116.\<close>

definition single :: "'a list \<Rightarrow> 'a call" where
  "single rows = (case rows of [r] \<Rightarrow> Answered (Some r) None | _ \<Rightarrow> Answered None (Some not_single))"

text \<open>\<^verbatim>\<open>.from('product_types').select(...).eq('id', id).single()\<close>\<close>

definition select_product_by_id :: "fault \<Rightarrow> datastore \<Rightarrow> string \<Rightarrow> ProductType call" where
  "select_product_by_id f db ident =
     (case f of
        Throws t \<Rightarrow> Threw t
      | Fails e \<Rightarrow> Answered None (Some e)
      | Works \<Rightarrow> single (filter (\<lambda>p. pt_id p = ident) (product_types db)))"

text \<open>\<^verbatim>\<open>.from('submissions').select('id').eq('product_type_id', id).limit(1)\<close>\<close>

definition select_related_submissions :: "fault \<Rightarrow> datastore \<Rightarrow> string \<Rightarrow> string list call" where
  "select_related_submissions f db ident =
     (case f of
        Throws t \<Rightarrow> Threw t
      | Fails e \<Rightarrow> Answered None (Some e)
      | Works \<Rightarrow> Answered (Some (take 1 (map sub_id (filter (\<lambda>s. product_type_id s = ident) (submissions db))))) None)"

text \<open>\<^verbatim>\<open>.from('product_types').select('id').eq('name', name).neq('id', id)\<close>\<close>

definition select_name_conflicts :: "fault \<Rightarrow> datastore \<Rightarrow> string \<Rightarrow> string \<Rightarrow> string list call" where
  "select_name_conflicts f db name ident =
     (case f of
        Throws t \<Rightarrow> Threw t
      | Fails e \<Rightarrow> Answered None (Some e)
      | Works \<Rightarrow> Answered (Some (map pt_id (filter (\<lambda>p. pt_name p = name \<and> pt_id p \<noteq> ident) (product_types db)))) None)"

definition foreign_key_violation :: db_error where
  "foreign_key_violation =
     \<lparr>err_code = ''23503'',
      err_message = ''update or delete on table product_types violates foreign key constraint on table submissions'',
      err_details = None, err_is_Error = False\<rparr>"

definition referenced :: "datastore \<Rightarrow> string \<Rightarrow> bool" where
  "referenced db ident = list_ex (\<lambda>s. product_type_id s = ident) (submissions db)"

text \<open>\<^verbatim>\<open>.from('product_types').delete().eq('id', id)\<close>. The schema declares
  \<^verbatim>\<open>product_type_id UUID REFERENCES product_types(id)\<close>, so the database refuses to delete a
  row that a submission points to.\<close>

definition delete_product :: "fault \<Rightarrow> datastore \<Rightarrow> string \<Rightarrow> unit call \<times> datastore" where
  "delete_product f db ident =
     (case f of
        Throws t \<Rightarrow> (Threw t, db)
      | Fails e \<Rightarrow> (Answered None (Some e), db)
      | Works \<Rightarrow>
          if list_ex (\<lambda>p. pt_id p = ident) (product_types db) \<and> referenced db ident
          then (Answered None (Some foreign_key_violation), db)
          else (Answered None None, db\<lparr>product_types := filter (\<lambda>p. pt_id p \<noteq> ident) (product_types db)\<rparr>))"

text \<open>\<^verbatim>\<open>.update({ name, instructions, reference_files }).eq('id', id).select(...).single()\<close>:
  the matching rows are rewritten, then \<^verbatim>\<open>.single()\<close> looks at them.\<close>

definition updated_row :: "string \<Rightarrow> string \<Rightarrow> ReferenceFile list \<Rightarrow> ProductType \<Rightarrow> ProductType" where
  "updated_row name instr files p =
     p\<lparr>pt_name := name, pt_instructions := instr, pt_reference_files := Some files\<rparr>"

definition update_product ::
  "fault \<Rightarrow> datastore \<Rightarrow> string \<Rightarrow> string \<Rightarrow> string \<Rightarrow> ReferenceFile list \<Rightarrow> ProductType call \<times> datastore" where
  "update_product f db ident name instr files =
     (case f of
        Throws t \<Rightarrow> (Threw t, db)
      | Fails e \<Rightarrow> (Answered None (Some e), db)
      | Works \<Rightarrow>
          let rows = map (\<lambda>p. if pt_id p = ident then updated_row name instr files p else p) (product_types db)
          in (single (filter (\<lambda>p. pt_id p = ident) rows), db\<lparr>product_types := rows\<rparr>))"

text \<open>\<^verbatim>\<open>.from('submissions').insert({...})\<close>. The database fills in the id and the
  creation time of the new row.\<close>

record submission_values =
  new_bad_copy :: string
  new_product_type_id :: string
  new_suggestions :: "string list"
  new_has_screenshot :: bool
  new_user_session :: string

definition insert_submission ::
  "fault \<Rightarrow> string \<Rightarrow> string \<Rightarrow> datastore \<Rightarrow> submission_values \<Rightarrow> unit call \<times> datastore" where
  "insert_submission f fresh_id now db v =
     (case f of
        Throws t \<Rightarrow> (Threw t, db)
      | Fails e \<Rightarrow> (Answered None (Some e), db)
      | Works \<Rightarrow>
          (Answered None None,
           db\<lparr>submissions := submissions db @
                [\<lparr>sub_id = fresh_id, bad_copy = new_bad_copy v, product_type_id = new_product_type_id v,
                  suggestions = new_suggestions v, has_screenshot = new_has_screenshot v,
                  user_session = new_user_session v, sub_created_at = now\<rparr>]\<rparr>))"

definition json_of_ReferenceFile :: "ReferenceFile \<Rightarrow> json" where
  "json_of_ReferenceFile f = JObject
     [(''id'', JString (rf_id f)), (''name'', JString (rf_name f)), (''size'', JNum (rf_size f)),
      (''type'', JString (rf_type f)), (''url'', JString (rf_url f)), (''uploadedAt'', JString (rf_uploadedAt f))]"

definition json_of_ProductType :: "ProductType \<Rightarrow> json" where
  "json_of_ProductType p = JObject
     [(''id'', JString (pt_id p)), (''name'', JString (pt_name p)), (''instructions'', JString (pt_instructions p)),
      (''reference_files'',
         (case pt_reference_files p of None \<Rightarrow> JNull | Some fs \<Rightarrow> JArray (map json_of_ReferenceFile fs))),
      (''created_at'', JString (pt_created_at p))]"

section \<open>PUT and DELETE /api/product-types/[id]\<close>

text \<open>What a handler's \<^verbatim>\<open>catch\<close> block can be handed: a datastore error object that was
  thrown on, or anything else.\<close>

datatype caught = DbError db_error | Other thrown

text \<open>\<^verbatim>\<open>error instanceof Error ? error.message : 'Unknown error'\<close>\<close>

definition message_or_unknown :: "caught \<Rightarrow> string" where
  "message_or_unknown e =
     (case e of
        DbError d \<Rightarrow> if err_is_Error d then err_message d else ''Unknown error''
      | Other (JsError m) \<Rightarrow> m
      | Other NonError \<Rightarrow> ''Unknown error'')"

text \<open>The \<^verbatim>\<open>referenceFiles\<close> field of the request body: absent, one of the falsy JSON
  values, or an array of files.\<close>

datatype files_field = Absent | Null | JFalse | Zero | EmptyString | Files "ReferenceFile list"

text \<open>\<^verbatim>\<open>referenceFiles || []\<close>\<close>

definition files_or_empty :: "files_field \<Rightarrow> ReferenceFile list" where
  "files_or_empty f = (case f of Files fs \<Rightarrow> fs | _ \<Rightarrow> [])"

record put_body =
  body_name :: "string option"
  body_instructions :: "string option"
  body_referenceFiles :: files_field

record put_faults =
  fault_names :: fault
  fault_update :: fault

definition put_failed :: "caught \<Rightarrow> reply" where
  "put_failed e = respond 500 (JObject [(''error'', JString ''Failed to update product type''),
                                       (''details'', JString (message_or_unknown e))])"

text \<open>Lines 46-73: the update and the reply that follows it.\<close>

definition put_update :: "fault \<Rightarrow> datastore \<Rightarrow> string \<Rightarrow> string \<Rightarrow> string \<Rightarrow> files_field \<Rightarrow> reply \<times> datastore" where
  "put_update f db ident name instr referenceFiles =
     (case update_product f db ident name instr (files_or_empty referenceFiles) of
        (Threw t, db') \<Rightarrow> (put_failed (Other t), db')
      | (Answered productType (Some updateError), db') \<Rightarrow> (put_failed (DbError updateError), db')
      | (Answered None None, db') \<Rightarrow> (respond 404 (error_body ''Product type not found''), db')
      | (Answered (Some p) None, db') \<Rightarrow> (respond 200 (json_of_ProductType p), db'))"

text \<open>\<^verbatim>\<open>PUT\<close>: the reply and the datastore afterwards. \<open>body\<close> is what
  \<^verbatim>\<open>await request.json()\<close> gives, or what it throws.\<close>

definition PUT :: "put_faults \<Rightarrow> datastore \<Rightarrow> string \<Rightarrow> thrown + put_body \<Rightarrow> reply \<times> datastore" where
  "PUT faults db ident body =
     (case body of
        Inl t \<Rightarrow> (put_failed (Other t), db)
      | Inr b \<Rightarrow>
          if ident = [] \<or> \<not> truthy (body_name b) \<or> \<not> truthy (body_instructions b)
          then (respond 400 (error_body ''ID, name and instructions are required''), db)
          else
            let name = or_else (body_name b) []; instr = or_else (body_instructions b) []
            in (case select_name_conflicts (fault_names faults) db name ident of
                  Threw t \<Rightarrow> (put_failed (Other t), db)
                | Answered existing (Some checkError) \<Rightarrow> (put_failed (DbError checkError), db)
                | Answered existing None \<Rightarrow>
                    if (case existing of None \<Rightarrow> False | Some ids \<Rightarrow> length ids > 0)
                    then (respond 409 (error_body ''A product type with this name already exists''), db)
                    else put_update (fault_update faults) db ident name instr (body_referenceFiles b)))"

record delete_faults =
  fault_check :: fault
  fault_submissions :: fault
  fault_delete :: fault

text \<open>Lines 189-215: the \<^verbatim>\<open>catch\<close> block of \<^verbatim>\<open>DELETE\<close>.\<close>

definition delete_unexpected :: "caught \<Rightarrow> reply" where
  "delete_unexpected e = respond 500 (JObject
     [(''error'', JString ''Failed to delete product type''),
      (''message'', JString (message_or_unknown e)),
      (''details'', JString ''Unexpected server error during deletion'')])"

definition delete_failed :: "caught \<Rightarrow> reply" where
  "delete_failed e =
     (case e of
        DbError d \<Rightarrow>
          if err_code d = ''23503''
          then respond 409 (JObject [(''error'', JString ''Cannot delete product type''),
                                     (''message'', JString ''This product type is being used and cannot be deleted.''),
                                     (''details'', JString (err_message d))])
          else delete_unexpected e
      | Other t \<Rightarrow> delete_unexpected e)"

definition conflict_reply :: reply where
  "conflict_reply = respond 409 (JObject
     [(''error'', JString ''Cannot delete product type''),
      (''message'', JString ''This product type has been used in copy generation requests and cannot be deleted. You can edit it instead.''),
      (''details'', JString ''Foreign key constraint: submissions exist for this product type'')])"

text \<open>Lines 156-181: the reply when the delete itself is refused.\<close>

definition delete_error_reply :: "db_error \<Rightarrow> reply" where
  "delete_error_reply deleteError =
     (if err_code deleteError = ''23503''
      then respond 409 (JObject [(''error'', JString ''Cannot delete product type''),
                                 (''message'', JString ''This product type is being used by existing submissions and cannot be deleted.''),
                                 (''details'', JString (err_message deleteError))])
      else respond 500 (JObject [(''error'', JString ''Database error''),
                                 (''message'', JString (err_message deleteError)),
                                 (''details'', JString (or_else (err_details deleteError) ''Unknown database error''))]))"

text \<open>Lines 124-188: what happens once the row is known to exist. An error of the submissions
  query is logged and the deletion is attempted all the same.\<close>

definition delete_existing :: "delete_faults \<Rightarrow> datastore \<Rightarrow> string \<Rightarrow> ProductType \<Rightarrow> reply \<times> datastore" where
  "delete_existing faults db ident existing =
     (case select_related_submissions (fault_submissions faults) db ident of
        Threw t \<Rightarrow> (delete_failed (Other t), db)
      | Answered relatedSubmissions submissionsError \<Rightarrow>
          if (case relatedSubmissions of None \<Rightarrow> False | Some ids \<Rightarrow> length ids > 0)
          then (conflict_reply, db)
          else
            (case delete_product (fault_delete faults) db ident of
               (Threw t, db') \<Rightarrow> (delete_failed (Other t), db')
             | (Answered d (Some deleteError), db') \<Rightarrow> (delete_error_reply deleteError, db')
             | (Answered d None, db') \<Rightarrow>
                 (respond 200 (JObject [(''message'', JString ''Product type deleted successfully''),
                                        (''deletedId'', JString ident),
                                        (''deletedName'', JString (pt_name existing))]), db')))"

text \<open>Lines 116-122 and after: the row is missing, or it is there.\<close>

definition delete_checked :: "delete_faults \<Rightarrow> datastore \<Rightarrow> string \<Rightarrow> ProductType option \<Rightarrow> reply \<times> datastore" where
  "delete_checked faults db ident existing =
     (case existing of
        None \<Rightarrow> (respond 404 (error_body ''Product type not found''), db)
      | Some row \<Rightarrow> delete_existing faults db ident row)"

text \<open>\<^verbatim>\<open>DELETE\<close>: the reply and the datastore afterwards.\<close>

definition DELETE :: "delete_faults \<Rightarrow> datastore \<Rightarrow> string \<Rightarrow> reply \<times> datastore" where
  "DELETE faults db ident =
     (if ident = []
      then (respond 400 (error_body ''Product type ID is required''), db)
      else
        (case select_product_by_id (fault_check faults) db ident of
           Threw t \<Rightarrow> (delete_failed (Other t), db)
         | Answered existing None \<Rightarrow> delete_checked faults db ident existing
         | Answered existing (Some checkError) \<Rightarrow>
             if err_code checkError \<noteq> ''PGRST116''
             then (delete_failed (DbError checkError), db)
             else delete_checked faults db ident existing))"

section \<open>POST /api/upload-reference\<close>

definition MAX_FILE_SIZE :: nat where
  "MAX_FILE_SIZE = 5 * 1024 * 1024"

definition ALLOWED_TYPES :: "string list" where
  "ALLOWED_TYPES = [''.pdf'', ''.png'', ''.jpg'', ''.jpeg'', ''.webp'']"

text \<open>The uploaded \<^verbatim>\<open>File\<close>: its name, its size in bytes, its declared MIME type, and what
  \<^verbatim>\<open>arrayBuffer()\<close> gives or throws.\<close>

record upload_file =
  file_name :: string
  file_size :: nat
  file_type :: string
  array_buffer :: "thrown + string"

text \<open>Line 31: \<^verbatim>\<open>'.' + file.name.split('.').pop()?.toLowerCase()\<close>. \<^verbatim>\<open>split\<close> gives at least
  one piece, so \<^verbatim>\<open>pop()\<close> is never undefined; for a name without a dot the piece is the whole
  name.\<close>

definition fileExtension :: "string \<Rightarrow> string" where
  "fileExtension name = ''.'' @ toLowerCase (last (split (CHR ''.'') name))"

datatype storage_call = Upload string string | GetPublicUrl string

text \<open>What the handler gets from outside: the UUID, the answer of the object store to an
  upload (path, bytes, content type), the public URL of a path, and the clock.\<close>

record upload_services =
  upload_uuid :: string
  storage_upload :: "string \<Rightarrow> string \<Rightarrow> string \<Rightarrow> unit call"
  public_url :: "string \<Rightarrow> string option"
  upload_time :: string

record upload_result =
  upload_reply :: reply
  storage_calls :: "storage_call list"

text \<open>Lines 100-106: the \<^verbatim>\<open>catch\<close> block.\<close>

definition upload_failed :: "thrown \<Rightarrow> reply" where
  "upload_failed e = respond 500 (error_body (''Failed to upload file: '' @ message_or_unknown (Other e)))"

text \<open>Lines 49-99: the upload itself, after validation.\<close>

definition store_file :: "upload_services \<Rightarrow> upload_file \<Rightarrow> upload_result" where
  "store_file svc file =
     (let fileId = upload_uuid svc;
          fileName = fileId @ ''-'' @ file_name file;
          filePath = ''reference-docs/'' @ fileName
      in case array_buffer file of
           Inl t \<Rightarrow> \<lparr>upload_reply = upload_failed t, storage_calls = []\<rparr>
         | Inr bytes \<Rightarrow>
             (case storage_upload svc filePath bytes (file_type file) of
                Threw t \<Rightarrow>
                  \<lparr>upload_reply = upload_failed t, storage_calls = [Upload filePath (file_type file)]\<rparr>
              | Answered uploadData (Some uploadError) \<Rightarrow>
                  \<lparr>upload_reply = respond 500 (error_body (''Failed to upload file to storage: '' @ err_message uploadError)),
                   storage_calls = [Upload filePath (file_type file)]\<rparr>
              | Answered uploadData None \<Rightarrow>
                  if \<not> truthy (public_url svc filePath)
                  then \<lparr>upload_reply = respond 500 (error_body ''Failed to get file URL''),
                        storage_calls = [Upload filePath (file_type file), GetPublicUrl filePath]\<rparr>
                  else \<lparr>upload_reply = respond 200 (json_of_ReferenceFile
                          \<lparr>rf_id = fileId, rf_name = file_name file, rf_size = file_size file,
                           rf_type = file_type file, rf_url = or_else (public_url svc filePath) [],
                           rf_uploadedAt = upload_time svc\<rparr>),
                        storage_calls = [Upload filePath (file_type file), GetPublicUrl filePath]\<rparr>))"

definition invalid_type_reply :: reply where
  "invalid_type_reply = respond 400 (error_body ''Invalid file type. Only PDF, PNG, JPG, and WebP files are allowed.'')"

definition too_large_reply :: reply where
  "too_large_reply = respond 400 (error_body ''File size exceeds 5MB limit.'')"

text \<open>\<^verbatim>\<open>POST\<close> of \<^verbatim>\<open>upload-reference/route.ts\<close>. \<open>form\<close> is the \<^verbatim>\<open>file\<close> entry of the form
  data (absent: \<open>None\<close>), or what \<^verbatim>\<open>request.formData()\<close> throws.\<close>

definition POST_upload_reference :: "upload_services \<Rightarrow> thrown + upload_file option \<Rightarrow> upload_result" where
  "POST_upload_reference svc form =
     (case form of
        Inl t \<Rightarrow> \<lparr>upload_reply = upload_failed t, storage_calls = []\<rparr>
      | Inr None \<Rightarrow> \<lparr>upload_reply = respond 400 (error_body ''No file provided''), storage_calls = []\<rparr>
      | Inr (Some file) \<Rightarrow>
          if \<not> List.member ALLOWED_TYPES (fileExtension (file_name file))
          then \<lparr>upload_reply = invalid_type_reply, storage_calls = []\<rparr>
          else if file_size file > MAX_FILE_SIZE
          then \<lparr>upload_reply = too_large_reply, storage_calls = []\<rparr>
          else store_file svc file)"

section \<open>POST /api/generate\<close>

text \<open>The screenshot: its size and what \<^verbatim>\<open>arrayBuffer()\<close> followed by the base64 encoding
  gives or throws.\<close>

record screenshot_file =
  shot_size :: nat
  shot_base64 :: "thrown + string"

text \<open>\<^verbatim>\<open>convertFileToBase64\<close> of \<^verbatim>\<open>lib/utils\<close>: any failure is rethrown under one message.\<close>

definition convertFileToBase64 :: "screenshot_file \<Rightarrow> thrown + string" where
  "convertFileToBase64 file =
     (case shot_base64 file of
        Inl t \<Rightarrow> Inl (JsError ''Failed to convert file to base64'')
      | Inr s \<Rightarrow> Inr s)"

record generate_form =
  form_mode :: "string option"
  form_productTypeId :: "string option"
  form_screenshot :: "screenshot_file option"
  form_badCopy :: "string option"
  form_inputCopy :: "string option"
  form_userType :: "string option"
  form_errorType :: "string option"
  form_canFix :: "string option"
  form_surface :: "string option"

text \<open>The request: its form data (or what \<^verbatim>\<open>request.formData()\<close> throws) and the value of
  the cookie \<^verbatim>\<open>user_session\<close>, when the request has it.\<close>

record generate_request =
  form_data :: "thrown + generate_form"
  session_cookie :: "string option"

text \<open>What the handler gets from outside: the faults of its three datastore calls, the LLM
  endpoint, \<^verbatim>\<open>crypto.randomUUID()\<close>, the id and time the database gives a new row, and the
  runtime's \<^verbatim>\<open>error.stack\<close>.\<close>

record generate_services =
  fault_select_full :: fault
  fault_select_basic :: fault
  fault_insert :: fault
  fetch :: "chat_request \<Rightarrow> fetch_outcome"
  randomUUID :: string
  row_id :: string
  row_time :: string
  stack_trace :: "string \<Rightarrow> string"

record cookie =
  cookie_name :: string
  cookie_value :: string
  httpOnly :: bool
  secure :: bool
  sameSite :: string
  maxAge :: nat

text \<open>What a request leaves behind: the reply, the cookie set on it, the datastore afterwards,
  the requests sent to the LLM endpoint, and the labels of the handler's own
  \<^verbatim>\<open>console.error\<close> calls.\<close>

record generate_result =
  http_reply :: reply
  set_cookie :: "cookie option"
  store :: datastore
  llm_requests :: "chat_request list"
  console_errors :: "string list"

definition finish :: "reply \<Rightarrow> datastore \<Rightarrow> string list \<Rightarrow> generate_result" where
  "finish r db logged =
     \<lparr>http_reply = r, set_cookie = None, store = db, llm_requests = [], console_errors = logged\<rparr>"

text \<open>Lines 423-435: the outer \<^verbatim>\<open>catch\<close> block, with its three \<^verbatim>\<open>console.error\<close> calls.\<close>

definition unexpected :: "generate_services \<Rightarrow> datastore \<Rightarrow> thrown \<Rightarrow> generate_result" where
  "unexpected svc db e =
     finish (respond 500 (JObject
        [(''error'', JString (''Unexpected server error: '' @ message_or_unknown (Other e))),
         (''details'', JString (case e of JsError m \<Rightarrow> stack_trace svc m | NonError \<Rightarrow> ''No additional details''))]))
       db [''=== GENERATE API UNEXPECTED ERROR ==='', ''Error details:'', ''Stack trace:'']"

text \<open>Lines 250-280: the product type is asked for with its \<^verbatim>\<open>reference_files\<close>; when that
  query throws or answers an error, it is asked for again without them, and only the second
  query's error is kept.\<close>

type_synonym product_data = "string \<times> ReferenceFile list option"

definition lookup_product ::
  "generate_services \<Rightarrow> datastore \<Rightarrow> string \<Rightarrow> thrown + (product_data option \<times> db_error option)" where
  "lookup_product svc db productTypeId =
     (case select_product_by_id (fault_select_full svc) db productTypeId of
        Answered d None \<Rightarrow> Inr (map_option (\<lambda>p. (pt_instructions p, pt_reference_files p)) d, None)
      | _ \<Rightarrow>
          (case select_product_by_id (fault_select_basic svc) db productTypeId of
             Threw t \<Rightarrow> Inl t
           | Answered d productError \<Rightarrow> Inr (map_option (\<lambda>p. (pt_instructions p, Some [])) d, productError)))"

text \<open>Lines 360-374: the message shown for a failed generation.\<close>

definition userMessage :: "thrown \<Rightarrow> string" where
  "userMessage openRouterError =
     (case openRouterError of
        NonError \<Rightarrow> ''Failed to generate suggestions''
      | JsError m \<Rightarrow>
          if js_includes m ''API key'' then ''OpenRouter API key is invalid or missing''
          else if js_includes m ''429'' then ''Rate limit exceeded. Please try again later''
          else if js_includes m ''401'' then ''OpenRouter API authentication failed''
          else if js_includes m ''network'' \<or> js_includes m ''fetch'' then ''Network error: Unable to reach AI service''
          else ''AI service error: '' @ m)"

text \<open>Lines 382-394: the session identifier and the cookie of the reply.\<close>

definition userSession :: "generate_services \<Rightarrow> generate_request \<Rightarrow> string" where
  "userSession svc req = or_else (session_cookie req) (randomUUID svc)"

definition session_cookie_for :: "environment \<Rightarrow> generate_services \<Rightarrow> generate_request \<Rightarrow> cookie option" where
  "session_cookie_for env svc req =
     (case session_cookie req of
        Some v \<Rightarrow> None
      | None \<Rightarrow> Some \<lparr>cookie_name = ''user_session'', cookie_value = userSession svc req,
                       httpOnly = True, secure = (NODE_ENV env = Some ''production''),
                       sameSite = ''lax'', maxAge = 60 * 60 * 24 * 30\<rparr>)"

text \<open>Line 386: the success payload.\<close>

definition success_reply :: "string list \<Rightarrow> reply" where
  "success_reply suggs = respond 200 (JObject [(''suggestions'', JArray (map JString suggs))])"

text \<open>Lines 382-421: the reply is built first; then the submission is stored, and a failure of
  that is logged and nothing more.\<close>

definition store_and_reply ::
  "environment \<Rightarrow> generate_services \<Rightarrow> datastore \<Rightarrow> generate_request \<Rightarrow> generate_form \<Rightarrow> string \<Rightarrow> string \<Rightarrow>
   chat_request list \<Rightarrow> string list \<Rightarrow> generate_result" where
  "store_and_reply env svc db req form badCopy productTypeId sent suggs =
     (let response = success_reply suggs;
          stored = insert_submission (fault_insert svc) (row_id svc) (row_time svc) db
                     \<lparr>new_bad_copy = badCopy, new_product_type_id = productTypeId, new_suggestions = suggs,
                      new_has_screenshot = (form_screenshot form \<noteq> None),
                      new_user_session = userSession svc req\<rparr>
      in \<lparr>http_reply = response,
          set_cookie = session_cookie_for env svc req,
          store = snd stored,
          llm_requests = sent,
          console_errors = (case fst stored of
                              Threw t \<Rightarrow> [''SUBMISSION STORAGE UNEXPECTED ERROR:'']
                            | Answered d (Some submissionError) \<Rightarrow> [''SUBMISSION STORAGE ERROR:'']
                            | Answered d None \<Rightarrow> [])\<rparr>)"

text \<open>Lines 310-327: a screenshot that is there and not empty is converted; \<open>Inr None\<close> is the
  undefined \<^verbatim>\<open>imageBase64\<close>.\<close>

definition convert_screenshot :: "generate_form \<Rightarrow> thrown + string option" where
  "convert_screenshot form =
     (case form_screenshot form of
        None \<Rightarrow> Inr None
      | Some screenshot \<Rightarrow>
          if shot_size screenshot > 0
          then (case convertFileToBase64 screenshot of Inl e \<Rightarrow> Inl e | Inr s \<Rightarrow> Inr (Some s))
          else Inr None)"

text \<open>Lines 310-380: the screenshot is converted, the reference URLs are collected, the
  generator is called.\<close>

definition generate_with ::
  "environment \<Rightarrow> generate_services \<Rightarrow> datastore \<Rightarrow> generate_request \<Rightarrow> generate_form \<Rightarrow> string \<Rightarrow> string \<Rightarrow>
   string \<Rightarrow> product_data \<Rightarrow> generate_result" where
  "generate_with env svc db req form md badCopy productTypeId productType =
     (case convert_screenshot form of
           Inl conversionError \<Rightarrow>
             finish (respond 500 (error_body (''Failed to process screenshot: '' @ message_or_unknown (Other conversionError))))
               db [''SCREENSHOT CONVERSION ERROR:'']
         | Inr imageBase64 \<Rightarrow>
             let referenceFileUrls = map rf_url (case snd productType of None \<Rightarrow> [] | Some fs \<Rightarrow> fs);
                 g = generateCopySuggestions env (fetch svc) badCopy (fst productType) imageBase64
                       (Some referenceFileUrls)
                       (Some \<lparr>mode = md, userType = form_userType form, errorType = form_errorType form,
                              canFix = form_canFix form, surface = form_surface form\<rparr>)
             in case outcome g of
                  Inl openRouterError \<Rightarrow>
                    (finish (respond 500 (error_body (userMessage openRouterError))) db [''OPENROUTER API ERROR:''])
                      \<lparr>llm_requests := network_calls g\<rparr>
                | Inr suggs \<Rightarrow> store_and_reply env svc db req form badCopy productTypeId (network_calls g) suggs)"

text \<open>Lines 201-308: the form is read and validated, the product type is looked up.\<close>

definition handle_form ::
  "environment \<Rightarrow> generate_services \<Rightarrow> datastore \<Rightarrow> generate_request \<Rightarrow> generate_form \<Rightarrow> generate_result" where
  "handle_form env svc db req form =
     (let md = or_else (form_mode form) ''improve_copy'';
          productTypeId = form_productTypeId form;
          badCopy = or_else (form_badCopy form) (or_else (form_inputCopy form) [])
      in if \<not> truthy productTypeId
         then finish (respond 400 (error_body ''Product type is required'')) db
                [''VALIDATION ERROR: Product type is required'']
         else if md = ''improve_copy'' \<and> badCopy = []
         then finish (respond 400 (error_body ''Original copy is required for improvement mode'')) db
                [''VALIDATION ERROR: Bad copy is required for improve_copy mode'']
         else
           (case lookup_product svc db (or_else productTypeId []) of
              Inl t \<Rightarrow> unexpected svc db t
            | Inr (productType, Some productError) \<Rightarrow>
                finish (respond 500 (error_body (''Database error: '' @ err_message productError))) db
                  [''DATABASE ERROR:'']
            | Inr (None, None) \<Rightarrow>
                finish (respond 400 (error_body ''Invalid product type'')) db
                  [''VALIDATION ERROR: Product type not found'']
            | Inr (Some productType, None) \<Rightarrow>
                generate_with env svc db req form md badCopy (or_else productTypeId []) productType))"

text \<open>\<^verbatim>\<open>POST\<close> of the generation route.\<close>

definition POST_generate ::
  "environment \<Rightarrow> generate_services \<Rightarrow> datastore \<Rightarrow> generate_request \<Rightarrow> generate_result" where
  "POST_generate env svc db req =
     (if \<not> truthy (OPENROUTER_API_KEY env)
      then finish (respond 500 (error_body ''OpenRouter API key not configured. Please check environment variables.''))
             db [''MISSING: OPENROUTER_API_KEY not configured'']
      else if \<not> truthy (NEXT_PUBLIC_SUPABASE_URL env) \<or> \<not> truthy (SUPABASE_SERVICE_ROLE_KEY env)
      then finish (respond 500 (error_body ''Database configuration incomplete. Please check environment variables.''))
             db [''MISSING: Supabase configuration incomplete'']
      else
        (case form_data req of
           Inl t \<Rightarrow> unexpected svc db t
         | Inr form \<Rightarrow> handle_form env svc db req form))"

section \<open>Concrete inputs\<close>

text \<open>A configured deployment and a response of the chat-completion API with the given content.\<close>

definition env0 :: environment where
  "env0 = \<lparr>OPENROUTER_API_KEY = Some ''sk-test'', NEXT_PUBLIC_APP_URL = None,
           NEXT_PUBLIC_SUPABASE_URL = Some ''https://db.example'', SUPABASE_SERVICE_ROLE_KEY = Some ''service'',
           NODE_ENV = None\<rparr>"

definition ok_response :: "string \<Rightarrow> http_response" where
  "ok_response c = \<lparr>status = 200, statusText = ''OK'', text_result = Inr [],
                    json_result = Inr (Choices [Choice (Some (ChoiceMessage (Some c)))])\<rparr>"

text \<open>An endpoint that answers every request with the same response.\<close>

definition answering :: "http_response \<Rightarrow> chat_request \<Rightarrow> fetch_outcome" where
  "answering r request = FetchReturns r"

definition improve_context :: CopyContext where
  "improve_context = \<lparr>mode = ''improve_copy'', userType = None, errorType = None, canFix = None, surface = None\<rparr>"

definition pattern_context :: CopyContext where
  "pattern_context = \<lparr>mode = ''suggest_pattern'', userType = Some ''admin'', errorType = None, canFix = None, surface = Some ''modal''\<rparr>"

definition other_context :: CopyContext where
  "other_context = \<lparr>mode = ''rewrite'', userType = None, errorType = None, canFix = None, surface = None\<rparr>"

definition error_response :: "nat \<Rightarrow> string \<Rightarrow> http_response" where
  "error_response st reason = \<lparr>status = st, statusText = reason, text_result = Inr ''{}'', json_result = Inl (JsError ''Unexpected end of JSON input'')\<rparr>"

definition empty_choices_response :: http_response where
  "empty_choices_response = \<lparr>status = 200, statusText = ''OK'', text_result = Inr [], json_result = Inr (Choices [])\<rparr>"

definition no_choices_response :: http_response where
  "no_choices_response = \<lparr>status = 200, statusText = ''OK'', text_result = Inr ''{}'', json_result = Inr NoChoices\<rparr>"

definition store0 :: upload_services where
  "store0 = \<lparr>upload_uuid = ''0000-1111'',
             storage_upload = (\<lambda>path bytes contentType. Answered None None),
             public_url = (\<lambda>path. Some (''https://files.example/reference-files/'' @ path)),
             upload_time = ''2024-05-01T10:00:00.000Z''\<rparr>"

definition no_delete_faults :: delete_faults where
  "no_delete_faults = \<lparr>fault_check = Works, fault_submissions = Works, fault_delete = Works\<rparr>"

definition no_put_faults :: put_faults where
  "no_put_faults = \<lparr>fault_names = Works, fault_update = Works\<rparr>"

definition style_guide :: ReferenceFile where
  "style_guide = \<lparr>rf_id = ''f1'', rf_name = ''style.pdf'', rf_size = 2048, rf_type = ''application/pdf'',
                  rf_url = ''https://files.example/reference-files/reference-docs/f1-style.pdf'',
                  rf_uploadedAt = ''2024-05-01T10:00:00.000Z''\<rparr>"

definition saas :: ProductType where
  "saas = \<lparr>pt_id = ''p1'', pt_name = ''SaaS'', pt_instructions = ''Be clear.'',
           pt_reference_files = Some [style_guide], pt_created_at = ''2024-01-01''\<rparr>"

definition mobile :: ProductType where
  "mobile = \<lparr>pt_id = ''p2'', pt_name = ''Mobile App'', pt_instructions = ''Be brief.'',
             pt_reference_files = None, pt_created_at = ''2024-01-02''\<rparr>"

definition first_submission :: Submission where
  "first_submission = \<lparr>sub_id = ''s1'', bad_copy = ''Oops'', product_type_id = ''p1'',
                       suggestions = [''Something went wrong.''], has_screenshot = False,
                       user_session = ''u1'', sub_created_at = ''2024-02-01''\<rparr>"

definition db0 :: datastore where
  "db0 = \<lparr>product_types = [saas, mobile], submissions = [first_submission]\<rparr>"

definition two_lines :: string where
  "two_lines = ''Something went wrong.'' @ [nl] @ ''Please try again.''"

definition services0 :: generate_services where
  "services0 = \<lparr>fault_select_full = Works, fault_select_basic = Works, fault_insert = Works,
                 fetch = (\<lambda>request. FetchReturns (ok_response two_lines)),
                 randomUUID = ''session-1'', row_id = ''s2'', row_time = ''2024-03-01'',
                 stack_trace = (\<lambda>m. ''Error: '' @ m)\<rparr>"

definition form0 :: generate_form where
  "form0 = \<lparr>form_mode = Some ''improve_copy'', form_productTypeId = Some ''p1'', form_screenshot = None,
            form_badCopy = Some ''Oops! Something went wrong.'', form_inputCopy = None, form_userType = None,
            form_errorType = None, form_canFix = None, form_surface = None\<rparr>"

definition request0 :: "generate_form \<Rightarrow> generate_request" where
  "request0 form = \<lparr>form_data = Inr form, session_cookie = Some ''u1''\<rparr>"

definition storage_down :: db_error where
  "storage_down = \<lparr>err_code = ''57P03'', err_message = ''the database system is starting up'',
                   err_details = None, err_is_Error = False\<rparr>"

section \<open>The suggestion list\<close>

lemma suggestions_of_blank:
  "\<forall>l \<in> set (split nl c). trim l = [] \<Longrightarrow> suggestions_of c = []"
  by (simp add: suggestions_of_def filter_empty_conv)

lemma suggestions_of_nonblank:
  assumes "\<not> (\<forall>l \<in> set (split nl c). trim l = [])"
  shows "suggestions_of c \<noteq> []"
proof -
  from assms obtain l where "l \<in> set (split nl c)" "trim l \<noteq> []" by blast
  then have "filter (\<lambda>line. length line > 0) (map trim (split nl c)) \<noteq> []"
    by (auto simp: filter_empty_conv)
  then show ?thesis
    by (cases "filter (\<lambda>line. length line > 0) (map trim (split nl c))") (auto simp: suggestions_of_def)
qed

lemma postprocess_cases:
  "postprocess c = (if \<forall>l \<in> set (split nl c). trim l = [] then [placeholder] else suggestions_of c)"
  using suggestions_of_blank[of c] suggestions_of_nonblank[of c]
  by (auto simp: postprocess_def Let_def)

lemma postprocess_length: "1 \<le> length (postprocess c) \<and> length (postprocess c) \<le> 3"
  by (auto simp: postprocess_def Let_def suggestions_of_def Suc_le_eq)

lemma generate_with_response:
  assumes "OPENROUTER_API_KEY env = Some apiKey" "apiKey \<noteq> []"
  shows "outcome (generateCopySuggestions env (\<lambda>request. FetchReturns r) badCopy instr img refs ctx)
         = (case handle_response r of Inl e \<Rightarrow> Inl (rethrow e) | Inr s \<Rightarrow> Inr s)"
  using assms by (simp add: generateCopySuggestions_def Let_def)

text \<open>
  C1, as stated, fails: the empty content is one line, and that line is blank, yet the
  generator does not return the placeholder list; the test of line 700 throws the
  empty-response error first.
\<close>

theorem suggestions_bounded_counterexample:
  "map trim (split nl []) = [[]]
   \<and> outcome (generateCopySuggestions env0 (answering (ok_response [])) ''Oops'' ''Be clear.'' None None None)
       = Inl (JsError ''No response content from OpenRouter API'')"
proof -
  have a: "answering r = (\<lambda>request. FetchReturns r)" for r
    by (rule ext) (simp add: answering_def)
  have k: "OPENROUTER_API_KEY env0 = Some ''sk-test''" "''sk-test'' \<noteq> []" by (simp_all add: env0_def)
  have h: "handle_response (ok_response []) = Inl (JsError ''No response content from OpenRouter API'')"
    by (simp add: handle_response_def response_ok_def ok_response_def first_content_def)
  have r: "rethrow (JsError ''No response content from OpenRouter API'')
             = JsError ''No response content from OpenRouter API''"
    by (simp add: rethrow_def)
  show ?thesis
    unfolding a generate_with_response[OF k] h by (simp add: r trim_def)
qed

text \<open>
  C1, amended. When the API answers with a 2xx status, a body that has \<open>choices\<close>, and a
  content in the first choice that is not empty, the generator returns a list: the content
  split at line feeds, each line trimmed, the empty ones dropped, cut to three entries. The list
  has between one and three entries, and when every line of the content is blank it is exactly
  the one-element list \<open>Unable to generate suggestions at this time.\<close>, never the empty list
  and never an error.
\<close>

theorem suggestions_bounded:
  assumes "OPENROUTER_API_KEY env = Some apiKey" and "apiKey \<noteq> []"
    and "response_ok r"
    and "json_result r = Inr (Choices choices)" and "first_content choices = Some c" and "c \<noteq> []"
  shows "\<exists>xs. outcome (generateCopySuggestions env (\<lambda>request. FetchReturns r) badCopy instr img refs ctx) = Inr xs
           \<and> xs = (if \<forall>l \<in> set (split nl c). trim l = []
                   then [''Unable to generate suggestions at this time.'']
                   else take 3 (filter (\<lambda>l. l \<noteq> []) (map trim (split nl c))))
           \<and> 1 \<le> length xs \<and> length xs \<le> 3"
proof -
  have "handle_response r = Inr (postprocess c)"
    using assms by (simp add: handle_response_def)
  then have "outcome (generateCopySuggestions env (\<lambda>request. FetchReturns r) badCopy instr img refs ctx)
               = Inr (postprocess c)"
    using assms generate_with_response[of env apiKey r] by simp
  moreover have "postprocess c = (if \<forall>l \<in> set (split nl c). trim l = []
                   then [''Unable to generate suggestions at this time.'']
                   else take 3 (filter (\<lambda>l. l \<noteq> []) (map trim (split nl c))))"
    by (simp add: postprocess_cases suggestions_of_def placeholder_def)
  ultimately show ?thesis using postprocess_length[of c] by simp
qed

theorem suggestions_bounded_witness:
  "outcome (generateCopySuggestions env0
      (\<lambda>request. FetchReturns (ok_response ('' Try again. '' @ [nl] @ [nl] @ ''Retry'' @ [nl] @ ''A'' @ [nl] @ ''B'')))
      ''Oops'' ''Be clear.'' None None None) = Inr [''Try again.'', ''Retry'', ''A'']
   \<and> outcome (generateCopySuggestions env0 (\<lambda>request. FetchReturns (ok_response ('' '' @ [nl] @ [nl])))
      ''Oops'' ''Be clear.'' None None None) = Inr [''Unable to generate suggestions at this time.'']"
proof -
  have k: "OPENROUTER_API_KEY env0 = Some ''sk-test''" "''sk-test'' \<noteq> []" by (simp_all add: env0_def)
  have ok: "response_ok (ok_response c)" for c by (simp add: response_ok_def ok_response_def)
  have j: "json_result (ok_response c) = Inr (Choices [Choice (Some (ChoiceMessage (Some c)))])" for c
    by (simp add: ok_response_def)
  have f: "first_content [Choice (Some (ChoiceMessage (Some c)))] = Some c" for c
    by (simp add: first_content_def)
  have t: "trim '' Try again. '' = ''Try again.''" "trim [] = []" "trim ''Retry'' = ''Retry''"
          "trim ''A'' = ''A''" "trim ''B'' = ''B''" "trim '' '' = []"
    by (simp_all add: trim_def js_whitespace_def)
  have s1: "split nl ('' Try again. '' @ [nl] @ [nl] @ ''Retry'' @ [nl] @ ''A'' @ [nl] @ ''B'')
              = ['' Try again. '', [], ''Retry'', ''A'', ''B'']"
    by (simp add: nl_def)
  have s2: "split nl ('' '' @ [nl] @ [nl]) = ['' '', [], []]" by (simp add: nl_def)
  show ?thesis
    using suggestions_bounded[OF k ok j f,
            of "'' Try again. '' @ [nl] @ [nl] @ ''Retry'' @ [nl] @ ''A'' @ [nl] @ ''B''" "''Oops''" "''Be clear.''" None None None]
          suggestions_bounded[OF k ok j f, of "'' '' @ [nl] @ [nl]" "''Oops''" "''Be clear.''" None None None]
    by (simp add: s1 s2 t nl_def)
qed

section \<open>The prompt composer\<close>

lemma startsWith_iff: "startsWith s p \<longleftrightarrow> (\<exists>q. s = p @ q)"
  by (induction s p rule: startsWith.induct) auto

lemma js_includes_iff: "js_includes s sub \<longleftrightarrow> (\<exists>p q. s = p @ sub @ q)"
proof (induction s)
  case Nil
  then show ?case by simp
next
  case (Cons c cs)
  show ?case
  proof
    assume "js_includes (c # cs) sub"
    then consider "startsWith (c # cs) sub" | "js_includes cs sub" by auto
    then show "\<exists>p q. c # cs = p @ sub @ q"
    proof cases
      case 1
      then obtain q where "c # cs = sub @ q" by (auto simp: startsWith_iff)
      then have "c # cs = [] @ sub @ q" by simp
      then show ?thesis by blast
    next
      case 2
      then obtain p q where "cs = p @ sub @ q" using Cons.IH by auto
      then have "c # cs = (c # p) @ sub @ q" by simp
      then show ?thesis by blast
    qed
  next
    assume "\<exists>p q. c # cs = p @ sub @ q"
    then obtain p q where e: "c # cs = p @ sub @ q" by blast
    show "js_includes (c # cs) sub"
    proof (cases p)
      case Nil
      with e have "startsWith (c # cs) sub" unfolding startsWith_iff by auto
      then show ?thesis by simp
    next
      case (Cons a p')
      with e have "cs = p' @ sub @ q" by simp
      then show ?thesis using Cons.IH by auto
    qed
  qed
qed

lemma js_includes_middle: "js_includes (p @ s @ q) s"
  unfolding js_includes_iff by blast

lemma js_includes_append_left: "js_includes x s \<Longrightarrow> js_includes (x @ y) s"
  unfolding js_includes_iff by (metis append.assoc)

lemma js_includes_append_right: "js_includes y s \<Longrightarrow> js_includes (x @ y) s"
  unfolding js_includes_iff by (metis append.assoc)

lemma js_includes_join: "x \<in> set xs \<Longrightarrow> js_includes (join sep xs) x"
proof (induction sep xs rule: join.induct)
  case (1 sep)
  then show ?case by simp
next
  case (2 sep y)
  then show ?case using js_includes_middle[of "[]" x "[]"] by simp
next
  case (3 sep a b bs)
  show ?case
  proof (cases "x = a")
    case True
    then show ?thesis using js_includes_middle[of "[]" a "sep @ join sep (b # bs)"] by simp
  next
    case False
    with 3 have "js_includes (join sep (b # bs)) x" by simp
    then have "js_includes ((a @ sep) @ join sep (b # bs)) x" by (rule js_includes_append_right)
    then show ?thesis by simp
  qed
qed

lemma template_first: "js_includes (template ((a @ s) # ls)) s"
proof (cases ls)
  case Nil
  then show ?thesis using js_includes_middle[of a s "[]"] by (simp add: template_def)
next
  case (Cons y ys)
  then show ?thesis using js_includes_middle[of a s "[nl] @ join [nl] (y # ys)"] by (simp add: template_def)
qed

lemma improve_copy_includes: "js_includes (improve_copy_prompt instr) instr"
  unfolding improve_copy_prompt_def by (rule template_first)

lemma write_new_includes: "js_includes (write_new_prompt instr ctx) instr"
  unfolding write_new_prompt_def by (rule template_first)

lemma suggest_pattern_includes: "js_includes (suggest_pattern_prompt instr ctx) instr"
  unfolding suggest_pattern_prompt_def by (rule template_first)

lemma fallback_includes: "js_includes (fallback_prompt instr) instr"
  unfolding fallback_prompt_def by (rule template_first)

lemma basePrompt_includes: "js_includes (basePrompt instr ctx) instr"
  by (simp add: basePrompt_def improve_copy_includes write_new_includes suggest_pattern_includes
        fallback_includes)

text \<open>
  C6. Whatever the mode (\<open>improve_copy\<close>, \<open>write_new\<close>, \<open>suggest_pattern\<close>, or any other value),
  the first message is the system message and its text contains the product instructions
  verbatim, as a contiguous substring.
\<close>

theorem instructions_verbatim:
  "\<exists>sp. hd (buildMessages env badCopy instr img refs ctx) = \<lparr>role = System, content = Plain sp\<rparr>
        \<and> sp = systemPrompt instr refs ctx \<and> js_includes sp instr"
  by (simp add: buildMessages_def systemPrompt_def basePrompt_includes js_includes_append_left)

theorem instructions_verbatim_witness:
  "js_includes (systemPrompt ''Be clear.'' None (Some pattern_context)) ''Be clear.''
   \<and> js_includes (systemPrompt ''Be clear.'' (Some [''/a.pdf'']) (Some improve_context)) ''Be clear.''"
  using instructions_verbatim[of env0 "''Oops''" "''Be clear.''" None None "Some pattern_context"]
        instructions_verbatim[of env0 "''Oops''" "''Be clear.''" None "Some [''/a.pdf'']" "Some improve_context"]
  by simp

lemma enumerate_member: "u \<in> set urls \<Longrightarrow> \<exists>i. (i, u) \<in> set (enumerate n urls)"
  by (induction urls arbitrary: n) auto

lemma reference_content_includes:
  assumes "u \<in> set urls"
  shows "js_includes (reference_content env urls) (app_url env @ u)"
proof -
  from assms obtain i where "(i, u) \<in> set (enumerate 0 urls)"
    using enumerate_member[of u urls 0] by auto
  then have "reference_line env (i, u) \<in> set (map (reference_line env) (enumerate 0 urls))" by force
  then have "js_includes (join [nl] (map (reference_line env) (enumerate 0 urls))) (reference_line env (i, u))"
    by (rule js_includes_join)
  moreover have "js_includes (reference_line env (i, u)) (app_url env @ u)"
    using js_includes_middle[of "show_nat (i + 1) @ ''. ''" "app_url env @ u" "[]"]
    by (simp add: reference_line_def)
  ultimately have "js_includes (join [nl] (map (reference_line env) (enumerate 0 urls))) (app_url env @ u)"
    unfolding js_includes_iff by (metis append.assoc)
  then have "js_includes ((''Reference documents for context (please review these for tone and style guidance):'' @ [nl])
                 @ join [nl] (map (reference_line env) (enumerate 0 urls))) (app_url env @ u)"
    by (rule js_includes_append_right)
  moreover have "reference_content env urls =
      (''Reference documents for context (please review these for tone and style guidance):'' @ [nl])
        @ join [nl] (map (reference_line env) (enumerate 0 urls))"
    by (simp add: reference_content_def template_def)
  ultimately show ?thesis by (simp only:)
qed

text \<open>
  Exactly when the list of reference URLs is present and not empty, the system prompt is the
  mode's prompt followed by two line feeds and the instruction to align with the reference
  materials, and a second message is inserted: a heading and one numbered line per file, each
  made of the base URL immediately followed by the supplied URL. Otherwise the system prompt is
  the mode's prompt alone and the messages are the system message and the request.
\<close>

lemma reference_files_in_prompt:
  "(has_references refs \<longrightarrow>
      (\<exists>urls. refs = Some urls \<and> urls \<noteq> []
         \<and> systemPrompt instr refs ctx = basePrompt instr ctx @ [nl, nl] @
              ''IMPORTANT: Reference documents have been provided that contain examples, style guides, or brand guidelines for this product. Please review these files and ensure your suggestions align with the established tone, style, and patterns shown in the reference materials.''
         \<and> buildMessages env badCopy instr img refs ctx =
              [\<lparr>role = System, content = Plain (systemPrompt instr refs ctx)\<rparr>,
               \<lparr>role = User, content = Plain
                  (''Reference documents for context (please review these for tone and style guidance):'' @ [nl]
                   @ join [nl] (map (\<lambda>(index, url). show_nat (index + 1) @ ''. '' @ app_url env @ url)
                                  (enumerate 0 urls)))\<rparr>,
               \<lparr>role = User, content = userContent badCopy img ctx\<rparr>]
         \<and> (\<forall>u \<in> set urls. js_includes (reference_content env urls) (app_url env @ u)
                                \<and> js_includes (reference_content env urls) u)))
   \<and> (\<not> has_references refs \<longrightarrow>
        systemPrompt instr refs ctx = basePrompt instr ctx
        \<and> buildMessages env badCopy instr img refs ctx =
              [\<lparr>role = System, content = Plain (basePrompt instr ctx)\<rparr>,
               \<lparr>role = User, content = userContent badCopy img ctx\<rparr>])"
proof (cases refs)
  case None
  then show ?thesis by (simp add: has_references_def buildMessages_def systemPrompt_def)
next
  case (Some urls)
  have inc: "js_includes (reference_content env urls) (app_url env @ u)
             \<and> js_includes (reference_content env urls) u" if "u \<in> set urls" for u
  proof -
    have a: "js_includes (reference_content env urls) (app_url env @ u)"
      using that by (rule reference_content_includes)
    then obtain p q where "reference_content env urls = p @ (app_url env @ u) @ q"
      unfolding js_includes_iff by blast
    then have "reference_content env urls = (p @ app_url env) @ u @ q" by simp
    then have "js_includes (reference_content env urls) u" unfolding js_includes_iff by blast
    with a show ?thesis by simp
  qed
  have ri: "reference_instruction = [nl, nl] @
      ''IMPORTANT: Reference documents have been provided that contain examples, style guides, or brand guidelines for this product. Please review these files and ensure your suggestions align with the established tone, style, and patterns shown in the reference materials.''"
    by (simp add: reference_instruction_def template_def)
  have rc: "reference_content env urls =
      ''Reference documents for context (please review these for tone and style guidance):'' @ [nl]
        @ join [nl] (map (\<lambda>(index, url). show_nat (index + 1) @ ''. '' @ app_url env @ url) (enumerate 0 urls))"
    by (simp add: reference_content_def template_def reference_line_def)
  show ?thesis
  proof (cases "urls = []")
    case True
    with Some show ?thesis by (simp add: has_references_def buildMessages_def systemPrompt_def)
  next
    case False
    have h: "has_references refs" using Some False by (simp add: has_references_def)
    have sp: "systemPrompt instr refs ctx = basePrompt instr ctx @ [nl, nl] @
              ''IMPORTANT: Reference documents have been provided that contain examples, style guides, or brand guidelines for this product. Please review these files and ensure your suggestions align with the established tone, style, and patterns shown in the reference materials.''"
      using h by (simp only: systemPrompt_def ri if_True)
    have bm: "buildMessages env badCopy instr img refs ctx =
              [\<lparr>role = System, content = Plain (systemPrompt instr refs ctx)\<rparr>,
               \<lparr>role = User, content = Plain (reference_content env urls)\<rparr>,
               \<lparr>role = User, content = userContent badCopy img ctx\<rparr>]"
      using Some False by (simp add: buildMessages_def)
    have ia: "\<forall>u \<in> set urls. js_includes (reference_content env urls) (app_url env @ u)
                                \<and> js_includes (reference_content env urls) u"
      using inc by blast
    have A: "\<exists>urls. refs = Some urls \<and> urls \<noteq> []
         \<and> systemPrompt instr refs ctx = basePrompt instr ctx @ [nl, nl] @
              ''IMPORTANT: Reference documents have been provided that contain examples, style guides, or brand guidelines for this product. Please review these files and ensure your suggestions align with the established tone, style, and patterns shown in the reference materials.''
         \<and> buildMessages env badCopy instr img refs ctx =
              [\<lparr>role = System, content = Plain (systemPrompt instr refs ctx)\<rparr>,
               \<lparr>role = User, content = Plain
                  (''Reference documents for context (please review these for tone and style guidance):'' @ [nl]
                   @ join [nl] (map (\<lambda>(index, url). show_nat (index + 1) @ ''. '' @ app_url env @ url)
                                  (enumerate 0 urls)))\<rparr>,
               \<lparr>role = User, content = userContent badCopy img ctx\<rparr>]
         \<and> (\<forall>u \<in> set urls. js_includes (reference_content env urls) (app_url env @ u)
                                \<and> js_includes (reference_content env urls) u)"
      by (rule exI[of _ urls]) (intro conjI Some False sp bm[unfolded rc] ia)
    show ?thesis
      apply (rule conjI)
       apply (rule impI, rule A)
      apply (rule impI, erule notE, rule h)
      done
  qed
qed

lemma reference_instruction_text:
  "js_includes reference_instruction ''ensure your suggestions align with the established tone''"
  by (simp add: reference_instruction_def template_def)

text \<open>
  C2, as stated, fails: for the mode \<open>rewrite\<close> the system message is the generic prompt of the
  last branch, which is not the prompt of \<open>improve_copy\<close>.
\<close>

theorem unrecognized_mode_counterexample:
  "buildMessages env0 ''Oops'' ''Be clear.'' None None (Some other_context)
     \<noteq> buildMessages env0 ''Oops'' ''Be clear.'' None None (Some improve_context)"
  by (simp add: buildMessages_def systemPrompt_def has_references_def basePrompt_def context_mode_def
        other_context_def improve_context_def fallback_prompt_def improve_copy_prompt_def template_def)

text \<open>
  C2, amended. For a mode that is none of the three (or no context at all), the composer does
  not fail: the system prompt is the generic template
  \<open>You are an expert UX copywriter. <instructions>\<close>, a blank line and the closing instruction
  that \<open>improve_copy\<close> also ends with (then the reference instruction, when there are reference
  files), and every message after the system message, the request
  \<open>Please improve this UI copy: "<copy>"\<close> included, is the one \<open>improve_copy\<close> gives.
\<close>

theorem unrecognized_mode_fallback:
  assumes "context_mode ctx \<notin> {Some ''improve_copy'', Some ''write_new'', Some ''suggest_pattern''}"
    and "mode ic = ''improve_copy''"
  shows "systemPrompt instr refs ctx
           = (''You are an expert UX copywriter. '' @ instr @ [nl, nl] @ closing_copy)
             @ (if has_references refs then reference_instruction else [])
         \<and> improve_copy_prompt instr
           = ''You are an expert UX copywriter specializing in improving existing UI copy. '' @ instr @ [nl, nl]
             @ ''Your task is to improve existing UI copy to make it clearer, more helpful, and more user-friendly.''
             @ [nl, nl] @ closing_copy
         \<and> userMessageText badCopy ctx = ''Please improve this UI copy: '' @ [CHR 0x22] @ badCopy @ [CHR 0x22]
         \<and> tl (buildMessages env badCopy instr img refs ctx) = tl (buildMessages env badCopy instr img refs (Some ic))"
proof -
  have u: "userMessageText badCopy ctx = userMessageText badCopy (Some ic)"
    using assms by (simp add: userMessageText_def context_mode_def)
  then have "userContent badCopy img ctx = userContent badCopy img (Some ic)"
    by (simp add: userContent_def split: option.split)
  then have "tl (buildMessages env badCopy instr img refs ctx) = tl (buildMessages env badCopy instr img refs (Some ic))"
    by (simp add: buildMessages_def)
  moreover have "userMessageText badCopy ctx = ''Please improve this UI copy: '' @ [CHR 0x22] @ badCopy @ [CHR 0x22]"
    using assms by (simp add: userMessageText_def)
  moreover have "systemPrompt instr refs ctx
           = (''You are an expert UX copywriter. '' @ instr @ [nl, nl] @ closing_copy)
             @ (if has_references refs then reference_instruction else [])"
    using assms by (simp add: systemPrompt_def basePrompt_def fallback_prompt_def template_def)
  moreover have "improve_copy_prompt instr
           = ''You are an expert UX copywriter specializing in improving existing UI copy. '' @ instr @ [nl, nl]
             @ ''Your task is to improve existing UI copy to make it clearer, more helpful, and more user-friendly.''
             @ [nl, nl] @ closing_copy"
    by (simp add: improve_copy_prompt_def template_def)
  ultimately show ?thesis by blast
qed

theorem unrecognized_mode_fallback_witness:
  "systemPrompt ''Be clear.'' None (Some other_context)
     = ''You are an expert UX copywriter. Be clear.'' @ [nl, nl] @ closing_copy
   \<and> tl (buildMessages env0 ''Oops'' ''Be clear.'' None None (Some other_context))
     = [\<lparr>role = User, content = Plain (''Please improve this UI copy: '' @ [CHR 0x22] @ ''Oops'' @ [CHR 0x22])\<rparr>]"
proof -
  have m: "context_mode (Some other_context) \<notin> {Some ''improve_copy'', Some ''write_new'', Some ''suggest_pattern''}"
    by (simp add: context_mode_def other_context_def)
  have i: "mode improve_context = ''improve_copy''" by (simp add: improve_context_def)
  have t: "tl (buildMessages env0 ''Oops'' ''Be clear.'' None None (Some improve_context))
           = [\<lparr>role = User, content = Plain (''Please improve this UI copy: '' @ [CHR 0x22] @ ''Oops'' @ [CHR 0x22])\<rparr>]"
    by (simp add: buildMessages_def userContent_def userMessageText_def context_mode_def improve_context_def)
  show ?thesis
    using unrecognized_mode_fallback[OF m i, of "''Be clear.''" None "''Oops''" env0 None] t
    by (simp add: has_references_def)
qed

section \<open>Failure classification\<close>

lemma js_includes_skip:
  assumes "w \<noteq> []" and "hd w \<notin> set a" and "js_includes (a @ b) w"
  shows "js_includes b w"
  using assms
proof (induction a)
  case Nil
  then show ?case by simp
next
  case (Cons x a)
  from Cons.prems(1) obtain h t where w: "w = h # t" by (cases w) auto
  with Cons.prems(2) have "\<not> startsWith (x # a @ b) w" by auto
  with Cons.prems(3) have "js_includes (a @ b) w" by simp
  with Cons show ?case by simp
qed

lemma show_nat_digits: "c \<in> set (show_nat n) \<Longrightarrow> \<exists>d<10. c = digit_char d"
proof (induction n rule: show_nat.induct)
  case (1 n)
  show ?case
  proof (cases "n < 10")
    case True
    with 1 show ?thesis by (auto simp: show_nat.simps[of n])
  next
    case False
    then have e: "show_nat n = show_nat (n div 10) @ [digit_char (n mod 10)]"
      by (simp add: show_nat.simps[of n])
    with "1.prems" consider "c \<in> set (show_nat (n div 10))" | "c = digit_char (n mod 10)" by auto
    then show ?thesis
    proof cases
      case 1
      then show ?thesis using "1.IH"[OF False] by simp
    next
      case 2
      have "n mod 10 < 10" by simp
      with 2 show ?thesis by blast
    qed
  qed
qed

lemma digit_char_code: "d < 10 \<Longrightarrow> (of_char (digit_char d) :: nat) = 48 + d"
  by (simp add: digit_char_def)

lemma digit_char_not_letter:
  assumes "d < 10"
  shows "digit_char d \<noteq> CHR ''f'' \<and> digit_char d \<noteq> CHR ''J''"
proof -
  have "digit_char d = CHR ''f'' \<Longrightarrow> False"
  proof -
    assume "digit_char d = CHR ''f''"
    then have "(of_char (digit_char d) :: nat) = of_char (CHR ''f'')" by simp
    then have "48 + d = (102::nat)" using digit_char_code[OF assms] by simp
    with assms show False by simp
  qed
  moreover have "digit_char d = CHR ''J'' \<Longrightarrow> False"
  proof -
    assume "digit_char d = CHR ''J''"
    then have "(of_char (digit_char d) :: nat) = of_char (CHR ''J'')" by simp
    then have "48 + d = (74::nat)" using digit_char_code[OF assms] by simp
    with assms show False by simp
  qed
  ultimately show ?thesis by blast
qed

lemma show_nat_no_letter: "CHR ''f'' \<notin> set (show_nat n) \<and> CHR ''J'' \<notin> set (show_nat n)"
proof -
  have "c \<in> set (show_nat n) \<Longrightarrow> c \<noteq> CHR ''f'' \<and> c \<noteq> CHR ''J''" for c
  proof -
    assume "c \<in> set (show_nat n)"
    then obtain d where "d < 10" "c = digit_char d" using show_nat_digits[of c n] by auto
    then show ?thesis using digit_char_not_letter[of d] by simp
  qed
  then show ?thesis by blast
qed

text \<open>The generic message contains \<open>fetch\<close> or \<open>JSON\<close> only when the status text does.\<close>

lemma generic_message_clean:
  assumes "\<not> js_includes txt ''fetch''" and "\<not> js_includes txt ''JSON''"
  shows "\<not> js_includes (''OpenRouter API error: '' @ show_nat n @ '' '' @ txt) ''fetch''
       \<and> \<not> js_includes (''OpenRouter API error: '' @ show_nat n @ '' '' @ txt) ''JSON''"
proof -
  have f: "hd ''fetch'' \<notin> set (''OpenRouter API error: '' @ show_nat n @ '' '')"
    using show_nat_no_letter[of n] by simp
  have j: "hd ''JSON'' \<notin> set (''OpenRouter API error: '' @ show_nat n @ '' '')"
    using show_nat_no_letter[of n] by simp
  have "js_includes ((''OpenRouter API error: '' @ show_nat n @ '' '') @ txt) ''fetch'' \<Longrightarrow> js_includes txt ''fetch''"
    using js_includes_skip[OF _ f] by blast
  moreover have "js_includes ((''OpenRouter API error: '' @ show_nat n @ '' '') @ txt) ''JSON'' \<Longrightarrow> js_includes txt ''JSON''"
    using js_includes_skip[OF _ j] by blast
  ultimately show ?thesis using assms by (simp only: append_assoc) blast
qed

lemma rethrow_fixed:
  "rethrow (JsError ''OpenRouter API authentication failed - invalid API key'')
     = JsError ''OpenRouter API authentication failed - invalid API key''"
  "rethrow (JsError ''OpenRouter API rate limit exceeded - please try again later'')
     = JsError ''OpenRouter API rate limit exceeded - please try again later''"
  "rethrow (JsError ''OpenRouter API server error - please try again'')
     = JsError ''OpenRouter API server error - please try again''"
  "rethrow (JsError ''No response content from OpenRouter API'')
     = JsError ''No response content from OpenRouter API''"
  by (simp_all add: rethrow_def)

lemma missing_key_no_call:
  "\<not> truthy (OPENROUTER_API_KEY env) \<Longrightarrow>
     generateCopySuggestions env net badCopy instr img refs ctx
       = \<lparr>network_calls = [], outcome = Inl (JsError ''OpenRouter API key not configured'')\<rparr>"
  by (auto simp: generateCopySuggestions_def truthy_def missing_key_def split: option.splits)

lemma outcome_with_key:
  "truthy (OPENROUTER_API_KEY env) \<Longrightarrow>
     outcome (generateCopySuggestions env (\<lambda>request. FetchReturns r) badCopy instr img refs ctx)
       = (case handle_response r of Inl e \<Rightarrow> Inl (rethrow e) | Inr s \<Rightarrow> Inr s)"
  by (auto simp: generateCopySuggestions_def truthy_def Let_def split: option.splits)

text \<open>
  C3, as stated, fails: a 503 response (a 5xx status) does not fail with the error of a 500
  response but with the generic error that carries the status code and the status text.
\<close>

theorem failure_classification_counterexample:
  "outcome (generateCopySuggestions env0 (answering (error_response 503 ''Service Unavailable''))
       ''Oops'' ''Be clear.'' None None None)
     = Inl (JsError ''OpenRouter API error: 503 Service Unavailable'')
   \<and> outcome (generateCopySuggestions env0 (answering (error_response 500 ''Internal Server Error''))
       ''Oops'' ''Be clear.'' None None None)
     = Inl (JsError ''OpenRouter API server error - please try again'')"
proof -
  have a: "answering r = (\<lambda>request. FetchReturns r)" for r
    by (rule ext) (simp add: answering_def)
  have n: "show_nat 503 = ''503''" by code_simp
  have k: "truthy (OPENROUTER_API_KEY env0)" by (simp add: truthy_def env0_def)
  have "handle_response (error_response 503 ''Service Unavailable'')
          = Inl (JsError ''OpenRouter API error: 503 Service Unavailable'')"
    by (simp add: handle_response_def response_ok_def error_response_def status_error_def n)
  moreover have "handle_response (error_response 500 ''Internal Server Error'')
          = Inl (JsError ''OpenRouter API server error - please try again'')"
    by (simp add: handle_response_def response_ok_def error_response_def status_error_def)
  moreover have "rethrow (JsError ''OpenRouter API error: 503 Service Unavailable'')
          = JsError ''OpenRouter API error: 503 Service Unavailable''"
    by (simp add: rethrow_def)
  ultimately show ?thesis by (simp add: a outcome_with_key[OF k] rethrow_fixed)
qed

text \<open>
  C3, amended. Without the credential the generator fails before any request is sent. With it,
  and a response whose body could be read: status 401 fails as the authentication error, 429
  as the rate-limit error, 500 (and only 500 among the 5xx statuses) as the upstream-service
  error; every other status outside 200-299 fails as the generic error carrying the status
  code and the status text, when that text contains neither \<open>fetch\<close> nor \<open>JSON\<close>; a 2xx
  response whose body has \<open>choices\<close>, and whose list of choices is empty or whose first choice
  has no content or an empty one, fails as the empty-response error. (A 2xx body that is
  \<^verbatim>\<open>null\<close> or has no \<open>choices\<close> is left out here: see \<open>body_without_choices\<close> below.)
\<close>

theorem failure_classification:
  "(\<not> truthy (OPENROUTER_API_KEY env) \<longrightarrow>
      generateCopySuggestions env net badCopy instr img refs ctx
        = \<lparr>network_calls = [], outcome = Inl (JsError ''OpenRouter API key not configured'')\<rparr>)
   \<and> (truthy (OPENROUTER_API_KEY env) \<and> \<not> response_ok r \<and> text_result r = Inr errorText \<longrightarrow>
        (status r = 401 \<longrightarrow>
           outcome (generateCopySuggestions env (\<lambda>request. FetchReturns r) badCopy instr img refs ctx)
             = Inl (JsError ''OpenRouter API authentication failed - invalid API key''))
      \<and> (status r = 429 \<longrightarrow>
           outcome (generateCopySuggestions env (\<lambda>request. FetchReturns r) badCopy instr img refs ctx)
             = Inl (JsError ''OpenRouter API rate limit exceeded - please try again later''))
      \<and> (status r = 500 \<longrightarrow>
           outcome (generateCopySuggestions env (\<lambda>request. FetchReturns r) badCopy instr img refs ctx)
             = Inl (JsError ''OpenRouter API server error - please try again''))
      \<and> (status r \<notin> {401, 429, 500} \<and> \<not> js_includes (statusText r) ''fetch''
            \<and> \<not> js_includes (statusText r) ''JSON'' \<longrightarrow>
           outcome (generateCopySuggestions env (\<lambda>request. FetchReturns r) badCopy instr img refs ctx)
             = Inl (JsError (''OpenRouter API error: '' @ show_nat (status r) @ '' '' @ statusText r))))
   \<and> (truthy (OPENROUTER_API_KEY env) \<and> response_ok r \<and> json_result r = Inr (Choices choices)
        \<and> first_content choices \<in> {None, Some []} \<longrightarrow>
        outcome (generateCopySuggestions env (\<lambda>request. FetchReturns r) badCopy instr img refs ctx)
          = Inl (JsError ''No response content from OpenRouter API''))"
proof (intro conjI impI)
  assume "\<not> truthy (OPENROUTER_API_KEY env)"
  then show "generateCopySuggestions env net badCopy instr img refs ctx
        = \<lparr>network_calls = [], outcome = Inl (JsError ''OpenRouter API key not configured'')\<rparr>"
    by (rule missing_key_no_call)
next
  assume a: "truthy (OPENROUTER_API_KEY env) \<and> \<not> response_ok r \<and> text_result r = Inr errorText"
    and s: "status r = 401"
  then have "handle_response r = Inl (JsError ''OpenRouter API authentication failed - invalid API key'')"
    by (simp add: handle_response_def status_error_def)
  with a show "outcome (generateCopySuggestions env (\<lambda>request. FetchReturns r) badCopy instr img refs ctx)
             = Inl (JsError ''OpenRouter API authentication failed - invalid API key'')"
    by (simp add: outcome_with_key rethrow_fixed)
next
  assume a: "truthy (OPENROUTER_API_KEY env) \<and> \<not> response_ok r \<and> text_result r = Inr errorText"
    and s: "status r = 429"
  then have "handle_response r = Inl (JsError ''OpenRouter API rate limit exceeded - please try again later'')"
    by (simp add: handle_response_def status_error_def)
  with a show "outcome (generateCopySuggestions env (\<lambda>request. FetchReturns r) badCopy instr img refs ctx)
             = Inl (JsError ''OpenRouter API rate limit exceeded - please try again later'')"
    by (simp add: outcome_with_key rethrow_fixed)
next
  assume a: "truthy (OPENROUTER_API_KEY env) \<and> \<not> response_ok r \<and> text_result r = Inr errorText"
    and s: "status r = 500"
  then have "handle_response r = Inl (JsError ''OpenRouter API server error - please try again'')"
    by (simp add: handle_response_def status_error_def)
  with a show "outcome (generateCopySuggestions env (\<lambda>request. FetchReturns r) badCopy instr img refs ctx)
             = Inl (JsError ''OpenRouter API server error - please try again'')"
    by (simp add: outcome_with_key rethrow_fixed)
next
  assume a: "truthy (OPENROUTER_API_KEY env) \<and> \<not> response_ok r \<and> text_result r = Inr errorText"
    and s: "status r \<notin> {401, 429, 500} \<and> \<not> js_includes (statusText r) ''fetch''
            \<and> \<not> js_includes (statusText r) ''JSON''"
  then have "handle_response r
               = Inl (JsError (''OpenRouter API error: '' @ show_nat (status r) @ '' '' @ statusText r))"
    by (simp add: handle_response_def status_error_def)
  moreover have "rethrow (JsError (''OpenRouter API error: '' @ show_nat (status r) @ '' '' @ statusText r))
               = JsError (''OpenRouter API error: '' @ show_nat (status r) @ '' '' @ statusText r)"
    using generic_message_clean[of "statusText r" "status r"] s by (simp add: rethrow_def)
  ultimately show "outcome (generateCopySuggestions env (\<lambda>request. FetchReturns r) badCopy instr img refs ctx)
             = Inl (JsError (''OpenRouter API error: '' @ show_nat (status r) @ '' '' @ statusText r))"
    using a by (simp add: outcome_with_key)
next
  assume a: "truthy (OPENROUTER_API_KEY env) \<and> response_ok r \<and> json_result r = Inr (Choices choices)
        \<and> first_content choices \<in> {None, Some []}"
  then have "handle_response r = Inl (JsError ''No response content from OpenRouter API'')"
    by (auto simp: handle_response_def)
  with a show "outcome (generateCopySuggestions env (\<lambda>request. FetchReturns r) badCopy instr img refs ctx)
          = Inl (JsError ''No response content from OpenRouter API'')"
    by (simp add: outcome_with_key rethrow_fixed)
qed

theorem failure_classification_witness:
  "generateCopySuggestions (env0\<lparr>OPENROUTER_API_KEY := None\<rparr>) (\<lambda>request. FetchThrows NonError)
       ''Oops'' ''Be clear.'' None None None
     = \<lparr>network_calls = [], outcome = Inl (JsError ''OpenRouter API key not configured'')\<rparr>
   \<and> outcome (generateCopySuggestions env0 (\<lambda>request. FetchReturns (error_response 401 ''Unauthorized''))
       ''Oops'' ''Be clear.'' None None None)
     = Inl (JsError ''OpenRouter API authentication failed - invalid API key'')
   \<and> outcome (generateCopySuggestions env0 (\<lambda>request. FetchReturns (error_response 429 ''Too Many Requests''))
       ''Oops'' ''Be clear.'' None None None)
     = Inl (JsError ''OpenRouter API rate limit exceeded - please try again later'')
   \<and> outcome (generateCopySuggestions env0 (\<lambda>request. FetchReturns (error_response 500 ''Internal Server Error''))
       ''Oops'' ''Be clear.'' None None None)
     = Inl (JsError ''OpenRouter API server error - please try again'')
   \<and> outcome (generateCopySuggestions env0 (\<lambda>request. FetchReturns (error_response 404 ''Not Found''))
       ''Oops'' ''Be clear.'' None None None)
     = Inl (JsError ''OpenRouter API error: 404 Not Found'')
   \<and> outcome (generateCopySuggestions env0 (\<lambda>request. FetchReturns empty_choices_response)
       ''Oops'' ''Be clear.'' None None None)
     = Inl (JsError ''No response content from OpenRouter API'')"
proof -
  have e: "\<not> response_ok (error_response st reason)" "text_result (error_response st reason) = Inr ''{}''"
          "status (error_response st reason) = st" "statusText (error_response st reason) = reason"
    if "st \<in> {401, 429, 500, 404}" for st reason
    using that by (auto simp: response_ok_def error_response_def)
  have o: "response_ok empty_choices_response" "json_result empty_choices_response = Inr (Choices [])"
          "first_content [] \<in> {None, Some []}"
    by (simp_all add: response_ok_def empty_choices_response_def first_content_def)
  have n: "show_nat 404 = ''404''" by code_simp
  have k0: "OPENROUTER_API_KEY env0 = Some ''sk-test''" by (simp add: env0_def)
  have c: "\<not> js_includes ''Not Found'' ''fetch''" "\<not> js_includes ''Not Found'' ''JSON''" by simp_all
  show ?thesis
    using failure_classification[of "env0\<lparr>OPENROUTER_API_KEY := None\<rparr>" "\<lambda>request. FetchThrows NonError"
            "''Oops''" "''Be clear.''" None None None "error_response 401 ''Unauthorized''" "''{}''" "[]"]
          failure_classification[of env0 "\<lambda>request. FetchThrows NonError"
            "''Oops''" "''Be clear.''" None None None "error_response 401 ''Unauthorized''" "''{}''" "[]"]
          failure_classification[of env0 "\<lambda>request. FetchThrows NonError"
            "''Oops''" "''Be clear.''" None None None "error_response 429 ''Too Many Requests''" "''{}''" "[]"]
          failure_classification[of env0 "\<lambda>request. FetchThrows NonError"
            "''Oops''" "''Be clear.''" None None None "error_response 500 ''Internal Server Error''" "''{}''" "[]"]
          failure_classification[of env0 "\<lambda>request. FetchThrows NonError"
            "''Oops''" "''Be clear.''" None None None "error_response 404 ''Not Found''" "''{}''" "[]"]
          failure_classification[of env0 "\<lambda>request. FetchThrows NonError"
            "''Oops''" "''Be clear.''" None None None empty_choices_response "''{}''" "[]"]
    by (simp add: k0 e o n c truthy_def first_content_def)
qed

text \<open>A 2xx body without \<open>choices\<close> has no content either, but it does not fail as the
  empty-response error: line 698 reads \<^verbatim>\<open>data.choices[0]\<close> and the \<^verbatim>\<open>TypeError\<close> of the runtime
  is what the caller gets. The log statement three lines above reads the same field through
  \<^verbatim>\<open>?.\<close>.\<close>

lemma body_without_choices:
  "outcome (generateCopySuggestions env0 (answering no_choices_response) ''Oops'' ''Be clear.'' None None None)
     = Inl no_choices_error
   \<and> no_choices_error \<noteq> JsError ''No response content from OpenRouter API''"
proof -
  have a: "answering r = (\<lambda>request. FetchReturns r)" for r
    by (rule ext) (simp add: answering_def)
  have k: "truthy (OPENROUTER_API_KEY env0)" by (simp add: truthy_def env0_def)
  have h: "handle_response no_choices_response = Inl no_choices_error"
    by (simp add: handle_response_def response_ok_def no_choices_response_def)
  have r: "rethrow no_choices_error = no_choices_error"
    by (simp add: rethrow_def no_choices_error_def)
  show ?thesis
    unfolding a outcome_with_key[OF k] h by (simp add: r) (simp add: no_choices_error_def)
qed

text \<open>The status text can turn the generic error into another one: the \<^verbatim>\<open>catch\<close> block
  looks for \<open>JSON\<close> in the message it is about to rethrow.\<close>

lemma status_text_reclassified:
  "outcome (generateCopySuggestions env0 (\<lambda>request. FetchReturns (error_response 400 ''Invalid JSON''))
       ''Oops'' ''Be clear.'' None None None)
     = Inl (JsError ''OpenRouter API returned invalid response format.'')"
proof -
  have n: "show_nat 400 = ''400''" by code_simp
  have k: "truthy (OPENROUTER_API_KEY env0)" by (simp add: truthy_def env0_def)
  have "handle_response (error_response 400 ''Invalid JSON'') = Inl (JsError ''OpenRouter API error: 400 Invalid JSON'')"
    by (simp add: handle_response_def response_ok_def error_response_def status_error_def n)
  moreover have "rethrow (JsError ''OpenRouter API error: 400 Invalid JSON'')
                   = JsError ''OpenRouter API returned invalid response format.''"
    by (simp add: rethrow_def)
  ultimately show ?thesis by (simp add: outcome_with_key[OF k])
qed

section \<open>Uploading a reference file\<close>

lemma store_file_status: "reply_status (upload_reply (store_file svc file)) \<in> {200, 500}"
  by (simp add: store_file_def Let_def respond_def upload_failed_def split: sum.split call.split option.split)

text \<open>
  C10. The type check looks at nothing but \<open>fileExtension\<close> of the file name (the lowercased
  text after the last dot; the whole name when it has no dot): when that is not one of
  \<open>.pdf .png .jpg .jpeg .webp\<close> the reply is the 400 of the type check and no storage call
  is made, whatever the declared MIME type; when it is, the reply is never that 400, whatever
  the MIME type. A file over 5MB is answered with a 400 and no storage call; with an allowed
  extension that 400 is the one of the size check.
\<close>

theorem upload_type_check:
  "(fileExtension (file_name file) \<notin> {''.pdf'', ''.png'', ''.jpg'', ''.jpeg'', ''.webp''} \<longrightarrow>
      POST_upload_reference svc (Inr (Some file)) = \<lparr>upload_reply = invalid_type_reply, storage_calls = []\<rparr>)
   \<and> (fileExtension (file_name file) \<in> {''.pdf'', ''.png'', ''.jpg'', ''.jpeg'', ''.webp''} \<longrightarrow>
        upload_reply (POST_upload_reference svc (Inr (Some file))) \<noteq> invalid_type_reply)
   \<and> (file_size file > 5 * 1024 * 1024 \<longrightarrow>
        reply_status (upload_reply (POST_upload_reference svc (Inr (Some file)))) = 400
        \<and> storage_calls (POST_upload_reference svc (Inr (Some file))) = [])
   \<and> (fileExtension (file_name file) \<in> {''.pdf'', ''.png'', ''.jpg'', ''.jpeg'', ''.webp''}
        \<and> file_size file > 5 * 1024 * 1024 \<longrightarrow>
        POST_upload_reference svc (Inr (Some file)) = \<lparr>upload_reply = too_large_reply, storage_calls = []\<rparr>)"
proof -
  have m: "set ALLOWED_TYPES = {''.pdf'', ''.png'', ''.jpg'', ''.jpeg'', ''.webp''}"
    by (simp add: ALLOWED_TYPES_def)
  have s: "reply_status (upload_reply (store_file svc file)) \<noteq> 400"
    using store_file_status[of svc "file"] by auto
  have i: "reply_status invalid_type_reply = 400" "reply_status too_large_reply = 400"
          "too_large_reply \<noteq> invalid_type_reply"
    by (simp_all add: invalid_type_reply_def too_large_reply_def respond_def error_body_def)
  have n: "upload_reply (store_file svc file) \<noteq> invalid_type_reply" using s i by metis
  show ?thesis
  proof (cases "fileExtension (file_name file) \<in> set ALLOWED_TYPES")
    case False
    then have "POST_upload_reference svc (Inr (Some file)) = \<lparr>upload_reply = invalid_type_reply, storage_calls = []\<rparr>"
      by (simp add: POST_upload_reference_def)
    with False show ?thesis unfolding m by (simp add: i)
  next
    case True
    then have "POST_upload_reference svc (Inr (Some file)) =
        (if file_size file > 5 * 1024 * 1024 then \<lparr>upload_reply = too_large_reply, storage_calls = []\<rparr>
         else store_file svc file)"
      by (simp add: POST_upload_reference_def MAX_FILE_SIZE_def)
    with True show ?thesis unfolding m using i n by simp
  qed
qed

theorem upload_type_check_witness:
  "POST_upload_reference store0
      (Inr (Some \<lparr>file_name = ''notes.txt'', file_size = 10, file_type = ''application/pdf'', array_buffer = Inr ''%PDF''\<rparr>))
     = \<lparr>upload_reply = invalid_type_reply, storage_calls = []\<rparr>
   \<and> upload_reply (POST_upload_reference store0
      (Inr (Some \<lparr>file_name = ''Guide.PDF'', file_size = 10, file_type = ''text/plain'', array_buffer = Inr ''hello''\<rparr>)))
     \<noteq> invalid_type_reply
   \<and> POST_upload_reference store0
      (Inr (Some \<lparr>file_name = ''big.png'', file_size = 6000000, file_type = ''image/png'', array_buffer = Inr ''...''\<rparr>))
     = \<lparr>upload_reply = too_large_reply, storage_calls = []\<rparr>"
proof -
  have e: "fileExtension ''notes.txt'' = ''.txt''" "fileExtension ''Guide.PDF'' = ''.pdf''"
          "fileExtension ''big.png'' = ''.png''"
    by code_simp+
  show ?thesis
    using upload_type_check[of "\<lparr>file_name = ''notes.txt'', file_size = 10, file_type = ''application/pdf'', array_buffer = Inr ''%PDF''\<rparr>" store0]
          upload_type_check[of "\<lparr>file_name = ''Guide.PDF'', file_size = 10, file_type = ''text/plain'', array_buffer = Inr ''hello''\<rparr>" store0]
          upload_type_check[of "\<lparr>file_name = ''big.png'', file_size = 6000000, file_type = ''image/png'', array_buffer = Inr ''...''\<rparr>" store0]
    by (simp add: e)
qed

text \<open>A name without a dot is its own extension: the file named \<open>pdf\<close> passes the type check.\<close>

lemma dotless_name_extension: "fileExtension ''pdf'' = ''.pdf''"
  by code_simp

section \<open>Deleting and updating a product type\<close>

lemma filter_unique_id:
  assumes "distinct (map pt_id rows)" and "p \<in> set rows" and "pt_id p = ident"
  shows "filter (\<lambda>q. pt_id q = ident) rows = [p]"
  using assms
proof (induction rows)
  case Nil
  then show ?case by simp
next
  case (Cons r rows)
  show ?case
  proof (cases "r = p")
    case True
    with Cons.prems have "pt_id p \<notin> pt_id ` set rows" by simp
    with Cons.prems(3) have "\<forall>q \<in> set rows. pt_id q \<noteq> ident" by (metis imageI)
    then have "filter (\<lambda>q. pt_id q = ident) rows = []" by (simp add: filter_empty_conv)
    with True Cons.prems show ?thesis by simp
  next
    case False
    with Cons.prems have "p \<in> set rows" by simp
    moreover from Cons.prems have "pt_id r \<notin> pt_id ` set rows" by simp
    ultimately have "pt_id r \<noteq> ident" using Cons.prems(3) by (metis imageI)
    with Cons \<open>p \<in> set rows\<close> show ?thesis by simp
  qed
qed

lemma filter_absent_id:
  "\<forall>p \<in> set rows. pt_id p \<noteq> ident \<Longrightarrow> filter (\<lambda>q. pt_id q = ident) rows = []"
  by (simp add: filter_empty_conv)

text \<open>
  C8. With a datastore that answers its calls, ids that are unique, and a non-empty id in the
  path: when no product type has the id the reply is 404 and nothing changes; when one has it
  and a submission refers to it, the reply is the 409 that tells the caller to edit instead,
  and both tables are as before; when one has it and no submission refers to it, the row is
  removed (the submissions stay) and the reply carries the id and the name of the deleted row.
\<close>

theorem delete_product_type:
  assumes "ident \<noteq> []" and "distinct (map pt_id (product_types db))"
  shows "((\<forall>p \<in> set (product_types db). pt_id p \<noteq> ident) \<longrightarrow>
            DELETE no_delete_faults db ident = (respond 404 (error_body ''Product type not found''), db))
       \<and> (\<forall>p \<in> set (product_types db). pt_id p = ident \<longrightarrow>
            ((\<exists>s \<in> set (submissions db). product_type_id s = ident) \<longrightarrow>
               DELETE no_delete_faults db ident = (conflict_reply, db) \<and> reply_status conflict_reply = 409)
          \<and> (\<not> (\<exists>s \<in> set (submissions db). product_type_id s = ident) \<longrightarrow>
               DELETE no_delete_faults db ident =
                 (respond 200 (JObject [(''message'', JString ''Product type deleted successfully''),
                                        (''deletedId'', JString ident),
                                        (''deletedName'', JString (pt_name p))]),
                  db\<lparr>product_types := filter (\<lambda>q. pt_id q \<noteq> ident) (product_types db)\<rparr>)))"
proof (intro conjI impI ballI)
  assume "\<forall>p \<in> set (product_types db). pt_id p \<noteq> ident"
  then have "filter (\<lambda>q. pt_id q = ident) (product_types db) = []" by (rule filter_absent_id)
  then show "DELETE no_delete_faults db ident = (respond 404 (error_body ''Product type not found''), db)"
    using assms(1)
    by (simp add: DELETE_def no_delete_faults_def select_product_by_id_def single_def not_single_def
          delete_checked_def)
next
  fix p
  assume p: "p \<in> set (product_types db)" "pt_id p = ident"
  then have one: "filter (\<lambda>q. pt_id q = ident) (product_types db) = [p]"
    using assms(2) filter_unique_id by blast
  then have d: "DELETE no_delete_faults db ident = delete_existing no_delete_faults db ident p"
    using assms(1)
    by (simp add: DELETE_def no_delete_faults_def select_product_by_id_def single_def delete_checked_def)
  {
    assume r: "\<exists>s \<in> set (submissions db). product_type_id s = ident"
    then have "filter (\<lambda>s. product_type_id s = ident) (submissions db) \<noteq> []"
      by (auto simp: filter_empty_conv)
    then have "take 1 (map sub_id (filter (\<lambda>s. product_type_id s = ident) (submissions db))) \<noteq> []"
      by (cases "filter (\<lambda>s. product_type_id s = ident) (submissions db)") auto
    then have "delete_existing no_delete_faults db ident p = (conflict_reply, db)"
      by (simp add: delete_existing_def no_delete_faults_def select_related_submissions_def)
    with d show "DELETE no_delete_faults db ident = (conflict_reply, db)" by simp
    show "reply_status conflict_reply = 409" by (simp add: conflict_reply_def respond_def)
  }
  {
    assume r: "\<not> (\<exists>s \<in> set (submissions db). product_type_id s = ident)"
    then have "filter (\<lambda>s. product_type_id s = ident) (submissions db) = []"
      by (auto simp: filter_empty_conv)
    moreover from r have "\<not> referenced db ident" by (auto simp: referenced_def list_ex_iff)
    ultimately have "delete_existing no_delete_faults db ident p =
                 (respond 200 (JObject [(''message'', JString ''Product type deleted successfully''),
                                        (''deletedId'', JString ident),
                                        (''deletedName'', JString (pt_name p))]),
                  db\<lparr>product_types := filter (\<lambda>q. pt_id q \<noteq> ident) (product_types db)\<rparr>)"
      by (simp add: delete_existing_def no_delete_faults_def select_related_submissions_def delete_product_def)
    with d show "DELETE no_delete_faults db ident =
                 (respond 200 (JObject [(''message'', JString ''Product type deleted successfully''),
                                        (''deletedId'', JString ident),
                                        (''deletedName'', JString (pt_name p))]),
                  db\<lparr>product_types := filter (\<lambda>q. pt_id q \<noteq> ident) (product_types db)\<rparr>)"
      by simp
  }
qed

theorem delete_product_type_witness:
  "DELETE no_delete_faults db0 ''p9'' = (respond 404 (error_body ''Product type not found''), db0)
   \<and> DELETE no_delete_faults db0 ''p1'' = (conflict_reply, db0)
   \<and> DELETE no_delete_faults db0 ''p2'' =
       (respond 200 (JObject [(''message'', JString ''Product type deleted successfully''),
                              (''deletedId'', JString ''p2''),
                              (''deletedName'', JString ''Mobile App'')]),
        \<lparr>product_types = [saas], submissions = [first_submission]\<rparr>)"
proof -
  have d: "distinct (map pt_id (product_types db0))"
    by (simp add: db0_def saas_def mobile_def)
  have n: "''p9'' \<noteq> []" "''p1'' \<noteq> []" "''p2'' \<noteq> []" by simp_all
  show ?thesis
    using delete_product_type[OF n(1) d] delete_product_type[OF n(2) d] delete_product_type[OF n(3) d]
    by (simp add: db0_def saas_def mobile_def first_submission_def)
qed

lemma map_filter_unique_id:
  assumes "distinct (map pt_id rows)" and "p \<in> set rows" and "pt_id p = ident"
    and "\<And>q. pt_id (g q) = pt_id q"
  shows "filter (\<lambda>q. pt_id q = ident) (map (\<lambda>q. if pt_id q = ident then g q else q) rows) = [g p]"
proof -
  have "filter (\<lambda>q. pt_id q = ident) (map (\<lambda>q. if pt_id q = ident then g q else q) rows)
          = map g (filter (\<lambda>q. pt_id q = ident) rows)"
    using assms(4) by (induction rows) auto
  then show ?thesis using filter_unique_id[OF assms(1-3)] by simp
qed

lemma put_update_existing:
  assumes "distinct (map pt_id (product_types db))" and "p \<in> set (product_types db)" and "pt_id p = ident"
  shows "put_update Works db ident name instr referenceFiles =
           (respond 200 (json_of_ProductType (updated_row name instr (files_or_empty referenceFiles) p)),
            db\<lparr>product_types :=
                 map (\<lambda>q. if pt_id q = ident then updated_row name instr (files_or_empty referenceFiles) q else q)
                   (product_types db)\<rparr>)"
proof -
  have i: "pt_id (updated_row name instr (files_or_empty referenceFiles) q) = pt_id q" for q
    by (simp add: updated_row_def)
  have u: "filter (\<lambda>q. pt_id q = ident)
             (map (\<lambda>q. if pt_id q = ident then updated_row name instr (files_or_empty referenceFiles) q else q)
                (product_types db))
           = [updated_row name instr (files_or_empty referenceFiles) p]"
    using assms i by (rule map_filter_unique_id)
  show ?thesis
    unfolding put_update_def update_product_def Let_def fault.case u single_def
    by simp
qed

lemma put_valid:
  assumes "ident \<noteq> []"
    and "body_name b = Some name" and "name \<noteq> []"
    and "body_instructions b = Some instr" and "instr \<noteq> []"
    and "\<forall>q \<in> set (product_types db). pt_name q = name \<longrightarrow> pt_id q = ident"
  shows "PUT no_put_faults db ident (Inr b) = put_update Works db ident name instr (body_referenceFiles b)"
proof -
  have c: "filter (\<lambda>q. pt_name q = name \<and> pt_id q \<noteq> ident) (product_types db) = []"
    using assms(6) by (auto simp: filter_empty_conv)
  have t: "truthy (body_name b)" "truthy (body_instructions b)"
          "or_else (body_name b) [] = name" "or_else (body_instructions b) [] = instr"
    using assms(2-5) by (simp_all add: truthy_def or_else_def)
  have s: "select_name_conflicts Works db name ident = Answered (Some []) None"
    by (simp add: select_name_conflicts_def c)
  have f: "fault_names no_put_faults = Works" "fault_update no_put_faults = Works"
    by (simp_all add: no_put_faults_def)
  show ?thesis
    using assms(1) by (simp add: PUT_def Let_def t f s)
qed

text \<open>
  C9. With a datastore that answers its calls and unique ids: a \<^verbatim>\<open>PUT\<close> that passes validation
  (id, name and instructions not empty, no other row with the name) for an existing row, and
  whose body has no \<^verbatim>\<open>referenceFiles\<close> or a falsy one, answers 200 and rewrites the row with
  \<^verbatim>\<open>reference_files\<close> set to the empty list: afterwards the row with that id holds no
  reference file, whatever it held before.
\<close>

theorem put_clears_reference_files:
  assumes "ident \<noteq> []"
    and "body_name b = Some name" and "name \<noteq> []"
    and "body_instructions b = Some instr" and "instr \<noteq> []"
    and "body_referenceFiles b \<in> {Absent, Null, JFalse, Zero, EmptyString}"
    and "distinct (map pt_id (product_types db))"
    and "p \<in> set (product_types db)" and "pt_id p = ident"
    and "\<forall>q \<in> set (product_types db). pt_name q = name \<longrightarrow> pt_id q = ident"
  shows "PUT no_put_faults db ident (Inr b) =
           (respond 200 (json_of_ProductType
              (p\<lparr>pt_name := name, pt_instructions := instr, pt_reference_files := Some []\<rparr>)),
            db\<lparr>product_types :=
                 map (\<lambda>q. if pt_id q = ident
                           then q\<lparr>pt_name := name, pt_instructions := instr, pt_reference_files := Some []\<rparr>
                           else q) (product_types db)\<rparr>)
         \<and> (\<forall>q \<in> set (product_types (snd (PUT no_put_faults db ident (Inr b)))).
               pt_id q = ident \<longrightarrow> pt_reference_files q = Some [])"
proof -
  have f: "files_or_empty (body_referenceFiles b) = []"
    using assms(6) by (auto simp: files_or_empty_def)
  have r: "PUT no_put_faults db ident (Inr b) =
           (respond 200 (json_of_ProductType (updated_row name instr [] p)),
            db\<lparr>product_types :=
                 map (\<lambda>q. if pt_id q = ident then updated_row name instr [] q else q) (product_types db)\<rparr>)"
    using put_valid[OF assms(1-5) assms(10)] put_update_existing[OF assms(7-9), of name instr "body_referenceFiles b"]
    by (simp only: f)
  have "pt_reference_files q = Some []"
    if "q \<in> set (map (\<lambda>q. if pt_id q = ident then updated_row name instr [] q else q) (product_types db))"
       "pt_id q = ident" for q
  proof -
    from that(1) obtain q0 where q0: "q0 \<in> set (product_types db)"
        "q = (if pt_id q0 = ident then updated_row name instr [] q0 else q0)" by auto
    show ?thesis
    proof (cases "pt_id q0 = ident")
      case True
      with q0 show ?thesis by (simp add: updated_row_def)
    next
      case False
      with q0 that(2) show ?thesis by simp
    qed
  qed
  moreover have "product_types (snd (PUT no_put_faults db ident (Inr b)))
                   = map (\<lambda>q. if pt_id q = ident then updated_row name instr [] q else q) (product_types db)"
    unfolding r by simp
  ultimately have "\<forall>q \<in> set (product_types (snd (PUT no_put_faults db ident (Inr b)))).
               pt_id q = ident \<longrightarrow> pt_reference_files q = Some []"
    by (simp only:) blast
  with r show ?thesis unfolding updated_row_def by simp
qed

theorem put_clears_reference_files_witness:
  "pt_reference_files saas = Some [style_guide]
   \<and> PUT no_put_faults db0 ''p1''
       (Inr \<lparr>body_name = Some ''SaaS'', body_instructions = Some ''Be clear and kind.'', body_referenceFiles = Absent\<rparr>)
     = (respond 200 (json_of_ProductType
          (saas\<lparr>pt_instructions := ''Be clear and kind.'', pt_reference_files := Some []\<rparr>)),
        \<lparr>product_types = [saas\<lparr>pt_instructions := ''Be clear and kind.'', pt_reference_files := Some []\<rparr>, mobile],
         submissions = [first_submission]\<rparr>)"
proof -
  have d: "distinct (map pt_id (product_types db0))"
    by (simp add: db0_def saas_def mobile_def)
  have p: "saas \<in> set (product_types db0)" "pt_id saas = ''p1''"
    by (simp_all add: db0_def saas_def)
  have n: "\<forall>q \<in> set (product_types db0). pt_name q = ''SaaS'' \<longrightarrow> pt_id q = ''p1''"
    by (simp add: db0_def saas_def mobile_def)
  have b: "body_name \<lparr>body_name = Some ''SaaS'', body_instructions = Some ''Be clear and kind.'', body_referenceFiles = Absent\<rparr> = Some ''SaaS''"
          "body_instructions \<lparr>body_name = Some ''SaaS'', body_instructions = Some ''Be clear and kind.'', body_referenceFiles = Absent\<rparr> = Some ''Be clear and kind.''"
          "body_referenceFiles \<lparr>body_name = Some ''SaaS'', body_instructions = Some ''Be clear and kind.'', body_referenceFiles = Absent\<rparr> \<in> {Absent, Null, JFalse, Zero, EmptyString}"
    by simp_all
  have e: "''p1'' \<noteq> []" "''SaaS'' \<noteq> []" "''Be clear and kind.'' \<noteq> []" by simp_all
  show ?thesis
    using put_clears_reference_files[OF e(1) b(1) e(2) b(2) e(3) b(3) d p n]
    by (simp add: db0_def saas_def mobile_def)
qed

section \<open>The generation endpoint\<close>

lemma finish_fields:
  "http_reply (finish r db logged) = r" "store (finish r db logged) = db"
  "llm_requests (finish r db logged) = []" "set_cookie (finish r db logged) = None"
  "console_errors (finish r db logged) = logged"
  by (simp_all add: finish_def)

lemma unexpected_fields:
  "reply_status (http_reply (unexpected svc db e)) = 500" "store (unexpected svc db e) = db"
  by (simp_all add: unexpected_def finish_def respond_def)

lemma store_and_reply_fields:
  "http_reply (store_and_reply env svc db req form badCopy pid sent suggs) = success_reply suggs"
  "set_cookie (store_and_reply env svc db req form badCopy pid sent suggs) = session_cookie_for env svc req"
  "llm_requests (store_and_reply env svc db req form badCopy pid sent suggs) = sent"
  by (simp_all add: store_and_reply_def Let_def)

lemma generate_with_status:
  "reply_status (http_reply (generate_with env svc db req form md badCopy pid pt)) \<in> {200, 500}"
  by (simp add: generate_with_def Let_def finish_def respond_def store_and_reply_fields success_reply_def
        split: option.split sum.split)

text \<open>Past the two validation tests the handler looks the product type up.\<close>

lemma handle_form_validated:
  assumes "truthy (form_productTypeId form)"
    and "\<not> (or_else (form_mode form) ''improve_copy'' = ''improve_copy''
            \<and> or_else (form_badCopy form) (or_else (form_inputCopy form) []) = [])"
  shows "handle_form env svc db req form =
           (case lookup_product svc db (or_else (form_productTypeId form) []) of
              Inl t \<Rightarrow> unexpected svc db t
            | Inr (productType, Some productError) \<Rightarrow>
                finish (respond 500 (error_body (''Database error: '' @ err_message productError))) db
                  [''DATABASE ERROR:'']
            | Inr (None, None) \<Rightarrow>
                finish (respond 400 (error_body ''Invalid product type'')) db
                  [''VALIDATION ERROR: Product type not found'']
            | Inr (Some productType, None) \<Rightarrow>
                generate_with env svc db req form (or_else (form_mode form) ''improve_copy'')
                  (or_else (form_badCopy form) (or_else (form_inputCopy form) []))
                  (or_else (form_productTypeId form) []) productType)"
  using assms by (auto simp: handle_form_def Let_def)

lemma handle_form_not_missing_copy:
  assumes "truthy (form_productTypeId form)"
    and "\<not> (or_else (form_mode form) ''improve_copy'' = ''improve_copy''
            \<and> or_else (form_badCopy form) (or_else (form_inputCopy form) []) = [])"
  shows "http_reply (handle_form env svc db req form)
           \<noteq> respond 400 (error_body ''Original copy is required for improvement mode'')"
proof -
  have g: "http_reply (generate_with env svc db req form md badCopy pid pt)
             \<noteq> respond 400 (error_body ''Original copy is required for improvement mode'')" for md badCopy pid pt
    using generate_with_status[of env svc db req form md badCopy pid pt]
    by (auto simp: respond_def)
  have u: "http_reply (unexpected svc db t)
             \<noteq> respond 400 (error_body ''Original copy is required for improvement mode'')" for t
    using unexpected_fields(1)[of svc db t] by (auto simp: respond_def)
  have d: "respond 500 x \<noteq> respond 400 (error_body ''Original copy is required for improvement mode'')" for x
    by (simp add: respond_def)
  have i: "respond 400 (error_body ''Invalid product type'')
             \<noteq> respond 400 (error_body ''Original copy is required for improvement mode'')"
    by (simp add: respond_def error_body_def)
  show ?thesis
    unfolding handle_form_validated[OF assms]
    by (simp add: g u d i finish_fields split: sum.split option.split prod.split)
qed

lemma POST_generate_configured:
  assumes "truthy (OPENROUTER_API_KEY env)" and "truthy (NEXT_PUBLIC_SUPABASE_URL env)"
    and "truthy (SUPABASE_SERVICE_ROLE_KEY env)" and "form_data req = Inr form"
  shows "POST_generate env svc db req = handle_form env svc db req form"
  using assms by (simp add: POST_generate_def)

text \<open>
  C4. In a configured deployment (the credential and the datastore settings are present; without
  them every request is answered 500 before validation), for a request whose form could be
  read: without \<open>productTypeId\<close> the reply is 400 \<open>{error: "Product type is required"}\<close>,
  the datastore is untouched and no LLM request is sent; with it, mode \<open>improve_copy\<close> (also
  by default) and no copy, the reply is the 400 that asks for the original copy, again with
  nothing written; with it, mode \<open>write_new\<close> or \<open>suggest_pattern\<close> and no copy, the reply is
  not that rejection.
\<close>

theorem generate_validation:
  assumes "truthy (OPENROUTER_API_KEY env)" and "truthy (NEXT_PUBLIC_SUPABASE_URL env)"
    and "truthy (SUPABASE_SERVICE_ROLE_KEY env)" and "form_data req = Inr form"
  shows "(\<not> truthy (form_productTypeId form) \<longrightarrow>
            http_reply (POST_generate env svc db req) = respond 400 (error_body ''Product type is required'')
            \<and> store (POST_generate env svc db req) = db
            \<and> llm_requests (POST_generate env svc db req) = [])
       \<and> (truthy (form_productTypeId form)
            \<and> or_else (form_mode form) ''improve_copy'' = ''improve_copy''
            \<and> or_else (form_badCopy form) (or_else (form_inputCopy form) []) = [] \<longrightarrow>
            http_reply (POST_generate env svc db req)
              = respond 400 (error_body ''Original copy is required for improvement mode'')
            \<and> store (POST_generate env svc db req) = db
            \<and> llm_requests (POST_generate env svc db req) = [])
       \<and> (truthy (form_productTypeId form)
            \<and> or_else (form_mode form) ''improve_copy'' \<in> {''write_new'', ''suggest_pattern''}
            \<and> or_else (form_badCopy form) (or_else (form_inputCopy form) []) = [] \<longrightarrow>
            http_reply (POST_generate env svc db req)
              \<noteq> respond 400 (error_body ''Original copy is required for improvement mode''))"
proof -
  have h: "POST_generate env svc db req = handle_form env svc db req form"
    using assms by (rule POST_generate_configured)
  have 1: "http_reply (POST_generate env svc db req) = respond 400 (error_body ''Product type is required'')
            \<and> store (POST_generate env svc db req) = db
            \<and> llm_requests (POST_generate env svc db req) = []"
    if "\<not> truthy (form_productTypeId form)"
  proof -
    from that have "handle_form env svc db req form =
               finish (respond 400 (error_body ''Product type is required'')) db
                 [''VALIDATION ERROR: Product type is required'']"
      by (simp add: handle_form_def Let_def)
    then show ?thesis by (simp add: h finish_fields)
  qed
  have 2: "http_reply (POST_generate env svc db req)
              = respond 400 (error_body ''Original copy is required for improvement mode'')
            \<and> store (POST_generate env svc db req) = db
            \<and> llm_requests (POST_generate env svc db req) = []"
    if "truthy (form_productTypeId form)
            \<and> or_else (form_mode form) ''improve_copy'' = ''improve_copy''
            \<and> or_else (form_badCopy form) (or_else (form_inputCopy form) []) = []"
  proof -
    from that have "handle_form env svc db req form =
               finish (respond 400 (error_body ''Original copy is required for improvement mode'')) db
                 [''VALIDATION ERROR: Bad copy is required for improve_copy mode'']"
      by (simp add: handle_form_def Let_def)
    then show ?thesis by (simp add: h finish_fields)
  qed
  have 3: "http_reply (POST_generate env svc db req)
              \<noteq> respond 400 (error_body ''Original copy is required for improvement mode'')"
    if a: "truthy (form_productTypeId form)
            \<and> or_else (form_mode form) ''improve_copy'' \<in> {''write_new'', ''suggest_pattern''}
            \<and> or_else (form_badCopy form) (or_else (form_inputCopy form) []) = []"
  proof -
    from a have "\<not> (or_else (form_mode form) ''improve_copy'' = ''improve_copy''
            \<and> or_else (form_badCopy form) (or_else (form_inputCopy form) []) = [])"
      by auto
    with a show ?thesis
      using handle_form_not_missing_copy[of form env svc db req] by (simp add: h)
  qed
  from 1 2 3 show ?thesis by blast
qed

theorem generate_validation_witness:
  "http_reply (POST_generate env0 services0 db0 (request0 (form0\<lparr>form_productTypeId := None\<rparr>)))
     = respond 400 (error_body ''Product type is required'')
   \<and> store (POST_generate env0 services0 db0 (request0 (form0\<lparr>form_productTypeId := None\<rparr>))) = db0
   \<and> http_reply (POST_generate env0 services0 db0 (request0 (form0\<lparr>form_badCopy := None\<rparr>)))
     = respond 400 (error_body ''Original copy is required for improvement mode'')
   \<and> store (POST_generate env0 services0 db0 (request0 (form0\<lparr>form_badCopy := None\<rparr>))) = db0
   \<and> http_reply (POST_generate env0 services0 db0
         (request0 (form0\<lparr>form_mode := Some ''write_new'', form_badCopy := None\<rparr>)))
     \<noteq> respond 400 (error_body ''Original copy is required for improvement mode'')"
proof -
  have c: "truthy (OPENROUTER_API_KEY env0)" "truthy (NEXT_PUBLIC_SUPABASE_URL env0)"
          "truthy (SUPABASE_SERVICE_ROLE_KEY env0)"
    by (simp_all add: env0_def truthy_def)
  have f: "form_data (request0 form) = Inr form" for form by (simp add: request0_def)
  show ?thesis
    using generate_validation[OF c f, of "form0\<lparr>form_productTypeId := None\<rparr>" services0 db0]
          generate_validation[OF c f, of "form0\<lparr>form_badCopy := None\<rparr>" services0 db0]
          generate_validation[OF c f, of "form0\<lparr>form_mode := Some ''write_new'', form_badCopy := None\<rparr>" services0 db0]
    by (simp add: form0_def truthy_def or_else_def)
qed

text \<open>The \<open>write_new\<close> request without copy goes all the way: it is answered with suggestions and
  its submission is stored.\<close>

lemma write_new_without_copy:
  "http_reply (POST_generate env0 services0 db0
      (request0 (form0\<lparr>form_mode := Some ''write_new'', form_badCopy := None\<rparr>)))
     = success_reply [''Something went wrong.'', ''Please try again.'']
   \<and> submissions (store (POST_generate env0 services0 db0
      (request0 (form0\<lparr>form_mode := Some ''write_new'', form_badCopy := None\<rparr>))))
     = [first_submission,
        \<lparr>sub_id = ''s2'', bad_copy = [], product_type_id = ''p1'',
         suggestions = [''Something went wrong.'', ''Please try again.''], has_screenshot = False,
         user_session = ''u1'', sub_created_at = ''2024-03-01''\<rparr>]"
proof -
  have c: "truthy (OPENROUTER_API_KEY env0)" "truthy (NEXT_PUBLIC_SUPABASE_URL env0)"
          "truthy (SUPABASE_SERVICE_ROLE_KEY env0)"
    by (simp_all add: env0_def truthy_def)
  have l: "lookup_product services0 db0 ''p1'' = Inr (Some (''Be clear.'', Some [style_guide]), None)"
    by (simp add: lookup_product_def services0_def select_product_by_id_def db0_def saas_def mobile_def single_def)
  have k: "OPENROUTER_API_KEY env0 = Some ''sk-test''" "''sk-test'' \<noteq> []" by (simp_all add: env0_def)
  have p: "postprocess two_lines = [''Something went wrong.'', ''Please try again.'']"
    by (simp add: two_lines_def postprocess_def suggestions_of_def nl_def trim_def js_whitespace_def)
  have n: "two_lines \<noteq> []" by (simp add: two_lines_def)
  have hr: "handle_response (ok_response two_lines) = Inr (postprocess two_lines)"
    using n by (simp add: handle_response_def response_ok_def ok_response_def first_content_def)
  have fs: "fetch services0 = (\<lambda>request. FetchReturns (ok_response two_lines))"
    by (simp add: services0_def)
  have g: "outcome (generateCopySuggestions env0 (fetch services0) badCopy instr img refs ctx)
             = Inr [''Something went wrong.'', ''Please try again.'']" for badCopy instr img refs ctx
    unfolding fs generate_with_response[OF k] hr p by simp
  have w: "generate_with env0 services0 db0 req form md badCopy pid pt
             = store_and_reply env0 services0 db0 req form badCopy pid
                 (network_calls (generateCopySuggestions env0 (fetch services0) badCopy (fst pt) None
                    (Some (map rf_url (case snd pt of None \<Rightarrow> [] | Some fs \<Rightarrow> fs)))
                    (Some \<lparr>mode = md, userType = form_userType form, errorType = form_errorType form,
                           canFix = form_canFix form, surface = form_surface form\<rparr>)))
                 [''Something went wrong.'', ''Please try again.'']"
    if "form_screenshot form = None" for req form md badCopy pid pt
    using that by (simp add: generate_with_def convert_screenshot_def Let_def g)
  have v: "handle_form env0 services0 db0 req (form0\<lparr>form_mode := Some ''write_new'', form_badCopy := None\<rparr>)
           = generate_with env0 services0 db0 req (form0\<lparr>form_mode := Some ''write_new'', form_badCopy := None\<rparr>)
               ''write_new'' [] ''p1'' (''Be clear.'', Some [style_guide])" for req
    by (simp add: handle_form_def Let_def form0_def truthy_def or_else_def l)
  have s: "form_screenshot (form0\<lparr>form_mode := Some ''write_new'', form_badCopy := None\<rparr>) = None"
    by (simp add: form0_def)
  have r: "POST_generate env0 services0 db0 (request0 form) = handle_form env0 services0 db0 (request0 form) form"
    for form
    using POST_generate_configured[OF c] by (simp add: request0_def)
  have e: "POST_generate env0 services0 db0 (request0 (form0\<lparr>form_mode := Some ''write_new'', form_badCopy := None\<rparr>))
           = store_and_reply env0 services0 db0
               (request0 (form0\<lparr>form_mode := Some ''write_new'', form_badCopy := None\<rparr>))
               (form0\<lparr>form_mode := Some ''write_new'', form_badCopy := None\<rparr>) [] ''p1''
               (network_calls (generateCopySuggestions env0 (fetch services0) [] (fst (''Be clear.'', Some [style_guide])) None
                    (Some (map rf_url (case snd (''Be clear.'', Some [style_guide]) of None \<Rightarrow> [] | Some fs \<Rightarrow> fs)))
                    (Some \<lparr>mode = ''write_new'',
                           userType = form_userType (form0\<lparr>form_mode := Some ''write_new'', form_badCopy := None\<rparr>),
                           errorType = form_errorType (form0\<lparr>form_mode := Some ''write_new'', form_badCopy := None\<rparr>),
                           canFix = form_canFix (form0\<lparr>form_mode := Some ''write_new'', form_badCopy := None\<rparr>),
                           surface = form_surface (form0\<lparr>form_mode := Some ''write_new'', form_badCopy := None\<rparr>)\<rparr>)))
               [''Something went wrong.'', ''Please try again.'']"
    by (simp only: r v w[OF s])
  have i: "snd (insert_submission Works i t db v) = db\<lparr>submissions := submissions db @
                [\<lparr>sub_id = i, bad_copy = new_bad_copy v, product_type_id = new_product_type_id v,
                  suggestions = new_suggestions v, has_screenshot = new_has_screenshot v,
                  user_session = new_user_session v, sub_created_at = t\<rparr>]\<rparr>" for i t v db
    by (simp add: insert_submission_def)
  have m: "fault_insert services0 = Works" "row_id services0 = ''s2''" "row_time services0 = ''2024-03-01''"
    by (simp_all add: services0_def)
  have x: "userSession services0 (request0 form) = ''u1''" for form
    by (simp add: userSession_def request0_def or_else_def)
  show ?thesis
    unfolding e
    by (simp add: store_and_reply_def Let_def m i x s db0_def)
qed

text \<open>The fault of the insertion is read in one place only, the insertion.\<close>

lemma insert_fault_elsewhere:
  "lookup_product (svc\<lparr>fault_insert := f\<rparr>) db pid = lookup_product svc db pid"
  "unexpected (svc\<lparr>fault_insert := f\<rparr>) db t = unexpected svc db t"
  "session_cookie_for env (svc\<lparr>fault_insert := f\<rparr>) req = session_cookie_for env svc req"
  "userSession (svc\<lparr>fault_insert := f\<rparr>) req = userSession svc req"
  by (simp_all add: lookup_product_def unexpected_def session_cookie_for_def userSession_def
        split: call.split option.split thrown.split)

text \<open>A request either ends before the insertion, with a reply that is not a 200, or reaches
  \<open>store_and_reply\<close> with the suggestions of the generator.\<close>

lemma generate_with_shape:
  "(\<exists>R. reply_status (http_reply R) \<noteq> 200
        \<and> (\<forall>f. generate_with env (svc\<lparr>fault_insert := f\<rparr>) db req form md badCopy pid pt = R))
   \<or> (\<exists>sent suggs. \<forall>f. generate_with env (svc\<lparr>fault_insert := f\<rparr>) db req form md badCopy pid pt
          = store_and_reply env (svc\<lparr>fault_insert := f\<rparr>) db req form badCopy pid sent suggs)"
proof -
  define g where "g = (\<lambda>imageBase64. generateCopySuggestions env (fetch svc) badCopy (fst pt) imageBase64
                       (Some (map rf_url (case snd pt of None \<Rightarrow> [] | Some fs \<Rightarrow> fs)))
                       (Some \<lparr>mode = md, userType = form_userType form, errorType = form_errorType form,
                              canFix = form_canFix form, surface = form_surface form\<rparr>))"
  have eq: "generate_with env (svc\<lparr>fault_insert := f\<rparr>) db req form md badCopy pid pt =
             (case convert_screenshot form of
                Inl conversionError \<Rightarrow>
                  finish (respond 500 (error_body (''Failed to process screenshot: '' @ message_or_unknown (Other conversionError))))
                    db [''SCREENSHOT CONVERSION ERROR:'']
              | Inr imageBase64 \<Rightarrow>
                  (case outcome (g imageBase64) of
                     Inl openRouterError \<Rightarrow>
                       (finish (respond 500 (error_body (userMessage openRouterError))) db [''OPENROUTER API ERROR:''])
                         \<lparr>llm_requests := network_calls (g imageBase64)\<rparr>
                   | Inr suggs \<Rightarrow>
                       store_and_reply env (svc\<lparr>fault_insert := f\<rparr>) db req form badCopy pid
                         (network_calls (g imageBase64)) suggs))" for f
    unfolding generate_with_def Let_def g_def
    by (simp split: sum.split option.split)
  show ?thesis
  proof (cases "convert_screenshot form")
    case (Inl e)
    then have "\<forall>f. generate_with env (svc\<lparr>fault_insert := f\<rparr>) db req form md badCopy pid pt =
        finish (respond 500 (error_body (''Failed to process screenshot: '' @ message_or_unknown (Other e))))
                    db [''SCREENSHOT CONVERSION ERROR:'']"
      by (simp add: eq)
    moreover have "reply_status (http_reply (finish (respond 500 (error_body (''Failed to process screenshot: '' @ message_or_unknown (Other e))))
                    db [''SCREENSHOT CONVERSION ERROR:''])) \<noteq> 200"
      by (simp add: finish_def respond_def)
    ultimately show ?thesis by blast
  next
    case (Inr img)
    show ?thesis
    proof (cases "outcome (g img)")
      case (Inl e)
      with Inr have "\<forall>f. generate_with env (svc\<lparr>fault_insert := f\<rparr>) db req form md badCopy pid pt =
          (finish (respond 500 (error_body (userMessage e))) db [''OPENROUTER API ERROR:''])
                         \<lparr>llm_requests := network_calls (g img)\<rparr>"
        by (simp add: eq)
      moreover have "reply_status (http_reply ((finish (respond 500 (error_body (userMessage e))) db
                        [''OPENROUTER API ERROR:''])\<lparr>llm_requests := network_calls (g img)\<rparr>)) \<noteq> 200"
        by (simp add: finish_def respond_def)
      ultimately show ?thesis by blast
    next
      case (Inr suggs)
      with \<open>convert_screenshot form = Inr img\<close>
      have "\<forall>f. generate_with env (svc\<lparr>fault_insert := f\<rparr>) db req form md badCopy pid pt =
          store_and_reply env (svc\<lparr>fault_insert := f\<rparr>) db req form badCopy pid (network_calls (g img)) suggs"
        by (simp add: eq)
      then show ?thesis by blast
    qed
  qed
qed

lemma handle_form_shape:
  "(\<exists>R. reply_status (http_reply R) \<noteq> 200
        \<and> (\<forall>f. handle_form env (svc\<lparr>fault_insert := f\<rparr>) db req form = R))
   \<or> (\<exists>badCopy pid sent suggs. \<forall>f. handle_form env (svc\<lparr>fault_insert := f\<rparr>) db req form
          = store_and_reply env (svc\<lparr>fault_insert := f\<rparr>) db req form badCopy pid sent suggs)"
proof -
  define md where "md = or_else (form_mode form) ''improve_copy''"
  define badCopy where "badCopy = or_else (form_badCopy form) (or_else (form_inputCopy form) [])"
  define pid where "pid = or_else (form_productTypeId form) []"
  have s: "reply_status (http_reply (finish (respond st b) db logged)) = st" for st b logged
    by (simp add: finish_def respond_def)
  have u: "reply_status (http_reply (unexpected svc db t)) \<noteq> 200" for t
    by (simp add: unexpected_fields)
  have eq: "handle_form env (svc\<lparr>fault_insert := f\<rparr>) db req form =
      (if \<not> truthy (form_productTypeId form)
         then finish (respond 400 (error_body ''Product type is required'')) db
                [''VALIDATION ERROR: Product type is required'']
         else if md = ''improve_copy'' \<and> badCopy = []
         then finish (respond 400 (error_body ''Original copy is required for improvement mode'')) db
                [''VALIDATION ERROR: Bad copy is required for improve_copy mode'']
         else
           (case lookup_product svc db pid of
              Inl t \<Rightarrow> unexpected svc db t
            | Inr (productType, Some productError) \<Rightarrow>
                finish (respond 500 (error_body (''Database error: '' @ err_message productError))) db
                  [''DATABASE ERROR:'']
            | Inr (None, None) \<Rightarrow>
                finish (respond 400 (error_body ''Invalid product type'')) db
                  [''VALIDATION ERROR: Product type not found'']
            | Inr (Some productType, None) \<Rightarrow>
                generate_with env (svc\<lparr>fault_insert := f\<rparr>) db req form md badCopy pid productType))" for f
    unfolding handle_form_def Let_def insert_fault_elsewhere md_def badCopy_def pid_def
    by (simp split: sum.split option.split prod.split)
  consider (a) "\<not> truthy (form_productTypeId form)"
    | (b) "truthy (form_productTypeId form)" "md = ''improve_copy'' \<and> badCopy = []"
    | (c) t where "truthy (form_productTypeId form)" "\<not> (md = ''improve_copy'' \<and> badCopy = [])"
         "lookup_product svc db pid = Inl t"
    | (d) p e where "truthy (form_productTypeId form)" "\<not> (md = ''improve_copy'' \<and> badCopy = [])"
         "lookup_product svc db pid = Inr (p, Some e)"
    | (e) "truthy (form_productTypeId form)" "\<not> (md = ''improve_copy'' \<and> badCopy = [])"
         "lookup_product svc db pid = Inr (None, None)"
    | (f) pt where "truthy (form_productTypeId form)" "\<not> (md = ''improve_copy'' \<and> badCopy = [])"
         "lookup_product svc db pid = Inr (Some pt, None)"
  proof (cases "truthy (form_productTypeId form)")
    case False
    then show ?thesis using a by blast
  next
    case True
    note pidOk = this
    show ?thesis
    proof (cases "md = ''improve_copy'' \<and> badCopy = []")
      case True
      with pidOk show ?thesis using b by blast
    next
      case False
      note valid = this
      show ?thesis
      proof (cases "lookup_product svc db pid")
        case (Inl t)
        with pidOk valid show ?thesis using c by blast
      next
        case (Inr r)
        obtain p e where r: "r = (p, e)" by (cases r)
        show ?thesis
        proof (cases e)
          case (Some err)
          with Inr r pidOk valid show ?thesis using d by blast
        next
          case None
          note noErr = this
          show ?thesis
          proof (cases p)
            case None
            with Inr r pidOk valid noErr show ?thesis using e by blast
          next
            case (Some pt)
            with Inr r pidOk valid noErr show ?thesis using f by blast
          qed
        qed
      qed
    qed
  qed
  then show ?thesis
  proof cases
    case a
    then have "\<forall>f. handle_form env (svc\<lparr>fault_insert := f\<rparr>) db req form =
        finish (respond 400 (error_body ''Product type is required'')) db
                [''VALIDATION ERROR: Product type is required'']"
      by (simp add: eq)
    moreover have "reply_status (http_reply (finish (respond 400 (error_body ''Product type is required'')) db
                [''VALIDATION ERROR: Product type is required''])) \<noteq> 200"
      by (simp add: s)
    ultimately show ?thesis by blast
  next
    case b
    then have "\<forall>f. handle_form env (svc\<lparr>fault_insert := f\<rparr>) db req form =
        finish (respond 400 (error_body ''Original copy is required for improvement mode'')) db
                [''VALIDATION ERROR: Bad copy is required for improve_copy mode'']"
      by (simp add: eq)
    moreover have "reply_status (http_reply (finish (respond 400 (error_body ''Original copy is required for improvement mode'')) db
                [''VALIDATION ERROR: Bad copy is required for improve_copy mode''])) \<noteq> 200"
      by (simp add: s)
    ultimately show ?thesis by blast
  next
    case c
    from c(2) have nv: "(md = ''improve_copy'' \<and> badCopy = []) = False" by blast
    from c(1) c(3) have "\<forall>f. handle_form env (svc\<lparr>fault_insert := f\<rparr>) db req form = unexpected svc db t"
      by (simp add: eq nv split: option.split)
    then show ?thesis using u by blast
  next
    case d
    from d(2) have nv: "(md = ''improve_copy'' \<and> badCopy = []) = False" by blast
    from d(1) d(3) have "\<forall>f. handle_form env (svc\<lparr>fault_insert := f\<rparr>) db req form =
        finish (respond 500 (error_body (''Database error: '' @ err_message e))) db [''DATABASE ERROR:'']"
      by (simp add: eq nv split: option.split)
    moreover have "reply_status (http_reply (finish (respond 500 (error_body (''Database error: '' @ err_message e))) db
                     [''DATABASE ERROR:''])) \<noteq> 200"
      by (simp add: s)
    ultimately show ?thesis by blast
  next
    case e
    from e(2) have nv: "(md = ''improve_copy'' \<and> badCopy = []) = False" by blast
    from e(1) e(3) have "\<forall>f. handle_form env (svc\<lparr>fault_insert := f\<rparr>) db req form =
        finish (respond 400 (error_body ''Invalid product type'')) db [''VALIDATION ERROR: Product type not found'']"
      by (simp add: eq nv split: option.split)
    moreover have "reply_status (http_reply (finish (respond 400 (error_body ''Invalid product type'')) db
                     [''VALIDATION ERROR: Product type not found''])) \<noteq> 200"
      by (simp add: s)
    ultimately show ?thesis by blast
  next
    case f
    from f(2) have nv: "(md = ''improve_copy'' \<and> badCopy = []) = False" by blast
    from f(1) f(3) have "\<forall>f. handle_form env (svc\<lparr>fault_insert := f\<rparr>) db req form =
        generate_with env (svc\<lparr>fault_insert := f\<rparr>) db req form md badCopy pid pt"
      by (simp add: eq nv split: option.split)
    then show ?thesis using generate_with_shape[of env svc db req form md badCopy pid pt]
      by (simp only:) blast
  qed
qed

lemma POST_generate_shape:
  "(\<exists>R. reply_status (http_reply R) \<noteq> 200
        \<and> (\<forall>f. POST_generate env (svc\<lparr>fault_insert := f\<rparr>) db req = R))
   \<or> (\<exists>form badCopy pid sent suggs. \<forall>f. POST_generate env (svc\<lparr>fault_insert := f\<rparr>) db req
          = store_and_reply env (svc\<lparr>fault_insert := f\<rparr>) db req form badCopy pid sent suggs)"
proof -
  have s: "reply_status (http_reply (finish (respond 500 b) db logged)) \<noteq> 200" for b logged
    by (simp add: finish_def respond_def)
  have u: "reply_status (http_reply (unexpected svc db t)) \<noteq> 200" for t
    by (simp add: unexpected_fields)
  consider (key) "\<not> truthy (OPENROUTER_API_KEY env)"
    | (datastore) "truthy (OPENROUTER_API_KEY env)"
        "\<not> truthy (NEXT_PUBLIC_SUPABASE_URL env) \<or> \<not> truthy (SUPABASE_SERVICE_ROLE_KEY env)"
    | (unreadable) t where "truthy (OPENROUTER_API_KEY env)" "truthy (NEXT_PUBLIC_SUPABASE_URL env)"
        "truthy (SUPABASE_SERVICE_ROLE_KEY env)" "form_data req = Inl t"
    | (readable) form where "truthy (OPENROUTER_API_KEY env)" "truthy (NEXT_PUBLIC_SUPABASE_URL env)"
        "truthy (SUPABASE_SERVICE_ROLE_KEY env)" "form_data req = Inr form"
    by (cases "form_data req") blast+
  then show ?thesis
  proof cases
    case key
    then have "\<forall>f. POST_generate env (svc\<lparr>fault_insert := f\<rparr>) db req =
        finish (respond 500 (error_body ''OpenRouter API key not configured. Please check environment variables.''))
             db [''MISSING: OPENROUTER_API_KEY not configured'']"
      by (simp add: POST_generate_def)
    then show ?thesis using s by blast
  next
    case datastore
    then have "\<forall>f. POST_generate env (svc\<lparr>fault_insert := f\<rparr>) db req =
        finish (respond 500 (error_body ''Database configuration incomplete. Please check environment variables.''))
             db [''MISSING: Supabase configuration incomplete'']"
      by (auto simp: POST_generate_def)
    then show ?thesis using s by blast
  next
    case unreadable
    then have "\<forall>f. POST_generate env (svc\<lparr>fault_insert := f\<rparr>) db req = unexpected svc db t"
      by (simp add: POST_generate_def insert_fault_elsewhere)
    then show ?thesis using u by blast
  next
    case readable
    then have "\<forall>f. POST_generate env (svc\<lparr>fault_insert := f\<rparr>) db req
                 = handle_form env (svc\<lparr>fault_insert := f\<rparr>) db req form"
      by (simp add: POST_generate_def)
    then show ?thesis using handle_form_shape[of env svc db req form]
      by (simp only:) blast
  qed
qed

lemma store_and_reply_failed:
  assumes "f \<noteq> Works"
  shows "store (store_and_reply env (svc\<lparr>fault_insert := f\<rparr>) db req form badCopy pid sent suggs) = db
       \<and> console_errors (store_and_reply env (svc\<lparr>fault_insert := f\<rparr>) db req form badCopy pid sent suggs)
           \<in> {[''SUBMISSION STORAGE ERROR:''], [''SUBMISSION STORAGE UNEXPECTED ERROR:'']}"
  using assms by (cases f) (simp_all add: store_and_reply_def Let_def insert_submission_def)

text \<open>Whatever happens to the insertion of the submission, the reply and the cookie of a
  request are the same as when it works, and a 200 is a success payload.\<close>

lemma insert_fault_invisible:
  "http_reply (POST_generate env (svc\<lparr>fault_insert := f\<rparr>) db req)
     = http_reply (POST_generate env (svc\<lparr>fault_insert := Works\<rparr>) db req)
   \<and> set_cookie (POST_generate env (svc\<lparr>fault_insert := f\<rparr>) db req)
     = set_cookie (POST_generate env (svc\<lparr>fault_insert := Works\<rparr>) db req)
   \<and> (reply_status (http_reply (POST_generate env (svc\<lparr>fault_insert := Works\<rparr>) db req)) = 200 \<longrightarrow>
        (\<exists>suggs. http_reply (POST_generate env (svc\<lparr>fault_insert := Works\<rparr>) db req) = success_reply suggs
               \<and> http_reply (POST_generate env (svc\<lparr>fault_insert := f\<rparr>) db req) = success_reply suggs)
        \<and> (f \<noteq> Works \<longrightarrow>
              store (POST_generate env (svc\<lparr>fault_insert := f\<rparr>) db req) = db
              \<and> console_errors (POST_generate env (svc\<lparr>fault_insert := f\<rparr>) db req)
                  \<in> {[''SUBMISSION STORAGE ERROR:''], [''SUBMISSION STORAGE UNEXPECTED ERROR:'']}))"
proof -
  consider (early) R where "reply_status (http_reply R) \<noteq> 200"
        "\<forall>f. POST_generate env (svc\<lparr>fault_insert := f\<rparr>) db req = R"
    | (late) form badCopy pid sent suggs where
        "\<forall>f. POST_generate env (svc\<lparr>fault_insert := f\<rparr>) db req
          = store_and_reply env (svc\<lparr>fault_insert := f\<rparr>) db req form badCopy pid sent suggs"
    using POST_generate_shape[of env svc db req] by blast
  then show ?thesis
  proof cases
    case early
    then show ?thesis by simp
  next
    case late
    have r: "http_reply (POST_generate env (svc\<lparr>fault_insert := g\<rparr>) db req) = success_reply suggs" for g
      using late by (simp add: store_and_reply_fields)
    have c: "set_cookie (POST_generate env (svc\<lparr>fault_insert := g\<rparr>) db req) = session_cookie_for env svc req" for g
      using late by (simp add: store_and_reply_fields insert_fault_elsewhere)
    have l: "f \<noteq> Works \<Longrightarrow>
              store (POST_generate env (svc\<lparr>fault_insert := f\<rparr>) db req) = db
              \<and> console_errors (POST_generate env (svc\<lparr>fault_insert := f\<rparr>) db req)
                  \<in> {[''SUBMISSION STORAGE ERROR:''], [''SUBMISSION STORAGE UNEXPECTED ERROR:'']}"
      using late store_and_reply_failed[where f = f and env = env and svc = svc and db = db and req = req
              and form = form and badCopy = badCopy and pid = pid and sent = sent and suggs = suggs] by simp
    show ?thesis using l by (auto simp: r c)
  qed
qed

text \<open>The path of a request that obtains its suggestions: configuration present, form read,
  validation passed, product type found, screenshot converted (or none), generator returned.\<close>

lemma POST_generate_generated:
  assumes "truthy (OPENROUTER_API_KEY env)" and "truthy (NEXT_PUBLIC_SUPABASE_URL env)"
    and "truthy (SUPABASE_SERVICE_ROLE_KEY env)" and "form_data req = Inr form"
    and "form_productTypeId form = Some pid" and "pid \<noteq> []"
    and "md = or_else (form_mode form) ''improve_copy''"
    and "badCopy = or_else (form_badCopy form) (or_else (form_inputCopy form) [])"
    and "\<not> (md = ''improve_copy'' \<and> badCopy = [])"
    and "lookup_product svc db pid = Inr (Some (instr, files), None)"
    and "convert_screenshot form = Inr img"
    and "outcome (generateCopySuggestions env (fetch svc) badCopy instr img
            (Some (map rf_url (case files of None \<Rightarrow> [] | Some fs \<Rightarrow> fs)))
            (Some \<lparr>mode = md, userType = form_userType form, errorType = form_errorType form,
                   canFix = form_canFix form, surface = form_surface form\<rparr>)) = Inr suggs"
  shows "POST_generate env svc db req =
           store_and_reply env svc db req form badCopy pid
             (network_calls (generateCopySuggestions env (fetch svc) badCopy instr img
                (Some (map rf_url (case files of None \<Rightarrow> [] | Some fs \<Rightarrow> fs)))
                (Some \<lparr>mode = md, userType = form_userType form, errorType = form_errorType form,
                       canFix = form_canFix form, surface = form_surface form\<rparr>)))
             suggs"
proof -
  have t: "truthy (form_productTypeId form)" "or_else (form_productTypeId form) [] = pid"
    using assms(5,6) by (simp_all add: truthy_def or_else_def)
  have v: "\<not> (or_else (form_mode form) ''improve_copy'' = ''improve_copy''
            \<and> or_else (form_badCopy form) (or_else (form_inputCopy form) []) = [])"
    using assms(7-9) by simp
  have "POST_generate env svc db req = handle_form env svc db req form"
    using assms(1-4) by (rule POST_generate_configured)
  also have "\<dots> = generate_with env svc db req form md badCopy pid (instr, files)"
    unfolding handle_form_validated[OF t(1) v] t(2) assms(10) by (simp add: assms(7,8))
  also have "\<dots> = store_and_reply env svc db req form badCopy pid
             (network_calls (generateCopySuggestions env (fetch svc) badCopy instr img
                (Some (map rf_url (case files of None \<Rightarrow> [] | Some fs \<Rightarrow> fs)))
                (Some \<lparr>mode = md, userType = form_userType form, errorType = form_errorType form,
                       canFix = form_canFix form, surface = form_surface form\<rparr>)))
             suggs"
    by (simp add: generate_with_def Let_def assms(11,12))
  finally show ?thesis .
qed

text \<open>
  C5. Take a request that has obtained its suggestion list: the deployment is configured, the
  form was read and passes validation, the product type was found, the screenshot (if any) was
  converted, and the generator returned the list \<open>suggs\<close>. If the insertion of the submission
  then fails (the datastore answers an error, or the call throws), the reply is still
  200 \<open>{suggestions: suggs}\<close>, with that very list; reply and cookie are the ones of a working
  insertion; nothing is written; and the failure is logged with one \<^verbatim>\<open>console.error\<close>.
\<close>

theorem persistence_failure_nonfatal:
  assumes "truthy (OPENROUTER_API_KEY env)" and "truthy (NEXT_PUBLIC_SUPABASE_URL env)"
    and "truthy (SUPABASE_SERVICE_ROLE_KEY env)" and "form_data req = Inr form"
    and "form_productTypeId form = Some pid" and "pid \<noteq> []"
    and "md = or_else (form_mode form) ''improve_copy''"
    and "badCopy = or_else (form_badCopy form) (or_else (form_inputCopy form) [])"
    and "\<not> (md = ''improve_copy'' \<and> badCopy = [])"
    and "lookup_product svc db pid = Inr (Some (instr, files), None)"
    and "convert_screenshot form = Inr img"
    and "outcome (generateCopySuggestions env (fetch svc) badCopy instr img
            (Some (map rf_url (case files of None \<Rightarrow> [] | Some fs \<Rightarrow> fs)))
            (Some \<lparr>mode = md, userType = form_userType form, errorType = form_errorType form,
                   canFix = form_canFix form, surface = form_surface form\<rparr>)) = Inr suggs"
    and "f \<noteq> Works"
  shows "http_reply (POST_generate env (svc\<lparr>fault_insert := f\<rparr>) db req)
           = \<lparr>reply_status = 200, reply_body = JObject [(''suggestions'', JArray (map JString suggs))]\<rparr>
       \<and> http_reply (POST_generate env (svc\<lparr>fault_insert := f\<rparr>) db req)
           = http_reply (POST_generate env (svc\<lparr>fault_insert := Works\<rparr>) db req)
       \<and> set_cookie (POST_generate env (svc\<lparr>fault_insert := f\<rparr>) db req)
           = set_cookie (POST_generate env (svc\<lparr>fault_insert := Works\<rparr>) db req)
       \<and> store (POST_generate env (svc\<lparr>fault_insert := f\<rparr>) db req) = db
       \<and> console_errors (POST_generate env (svc\<lparr>fault_insert := f\<rparr>) db req)
           = (case f of Works \<Rightarrow> []
                      | Fails e \<Rightarrow> [''SUBMISSION STORAGE ERROR:'']
                      | Throws t \<Rightarrow> [''SUBMISSION STORAGE UNEXPECTED ERROR:''])"
proof -
  have p: "POST_generate env (svc\<lparr>fault_insert := x\<rparr>) db req =
           store_and_reply env (svc\<lparr>fault_insert := x\<rparr>) db req form badCopy pid
             (network_calls (generateCopySuggestions env (fetch svc) badCopy instr img
                (Some (map rf_url (case files of None \<Rightarrow> [] | Some fs \<Rightarrow> fs)))
                (Some \<lparr>mode = md, userType = form_userType form, errorType = form_errorType form,
                       canFix = form_canFix form, surface = form_surface form\<rparr>)))
             suggs" for x
  proof -
    have l: "lookup_product (svc\<lparr>fault_insert := x\<rparr>) db pid = Inr (Some (instr, files), None)"
      using assms(10) by (simp add: insert_fault_elsewhere)
    have e: "fetch (svc\<lparr>fault_insert := x\<rparr>) = fetch svc" by simp
    show ?thesis
      using POST_generate_generated[OF assms(1-9) l assms(11), of suggs] assms(12)
      unfolding e by simp
  qed
  have r: "http_reply (POST_generate env (svc\<lparr>fault_insert := x\<rparr>) db req)
             = \<lparr>reply_status = 200, reply_body = JObject [(''suggestions'', JArray (map JString suggs))]\<rparr>" for x
    unfolding p by (simp add: store_and_reply_fields success_reply_def respond_def)
  have c: "set_cookie (POST_generate env (svc\<lparr>fault_insert := x\<rparr>) db req) = session_cookie_for env svc req" for x
    unfolding p by (simp add: store_and_reply_fields insert_fault_elsewhere)
  have s: "store (POST_generate env (svc\<lparr>fault_insert := f\<rparr>) db req) = db
       \<and> console_errors (POST_generate env (svc\<lparr>fault_insert := f\<rparr>) db req)
           = (case f of Works \<Rightarrow> []
                      | Fails e \<Rightarrow> [''SUBMISSION STORAGE ERROR:'']
                      | Throws t \<Rightarrow> [''SUBMISSION STORAGE UNEXPECTED ERROR:''])"
    unfolding p using assms(13)
    by (cases f) (simp_all add: store_and_reply_def Let_def insert_submission_def)
  show ?thesis using s by (simp add: r c)
qed

theorem persistence_failure_nonfatal_witness:
  "http_reply (POST_generate env0 (services0\<lparr>fault_insert := Fails storage_down\<rparr>) db0 (request0 form0))
     = \<lparr>reply_status = 200,
        reply_body = JObject [(''suggestions'',
                      JArray [JString ''Something went wrong.'', JString ''Please try again.''])]\<rparr>
   \<and> store (POST_generate env0 (services0\<lparr>fault_insert := Fails storage_down\<rparr>) db0 (request0 form0)) = db0
   \<and> console_errors (POST_generate env0 (services0\<lparr>fault_insert := Fails storage_down\<rparr>) db0 (request0 form0))
     = [''SUBMISSION STORAGE ERROR:'']"
proof -
  have c: "truthy (OPENROUTER_API_KEY env0)" "truthy (NEXT_PUBLIC_SUPABASE_URL env0)"
          "truthy (SUPABASE_SERVICE_ROLE_KEY env0)"
    by (simp_all add: env0_def truthy_def)
  have k: "OPENROUTER_API_KEY env0 = Some ''sk-test''" "''sk-test'' \<noteq> []" by (simp_all add: env0_def)
  have fd: "form_data (request0 form0) = Inr form0" by (simp add: request0_def)
  have pid: "form_productTypeId form0 = Some ''p1''" "''p1'' \<noteq> []" by (simp_all add: form0_def)
  have md: "''improve_copy'' = or_else (form_mode form0) ''improve_copy''"
    by (simp add: form0_def or_else_def)
  have bc: "''Oops! Something went wrong.'' = or_else (form_badCopy form0) (or_else (form_inputCopy form0) [])"
    by (simp add: form0_def or_else_def)
  have v: "\<not> (''improve_copy'' = ''improve_copy'' \<and> ''Oops! Something went wrong.'' = [])" by simp
  have l: "lookup_product services0 db0 ''p1'' = Inr (Some (''Be clear.'', Some [style_guide]), None)"
    by (simp add: lookup_product_def services0_def select_product_by_id_def db0_def saas_def mobile_def single_def)
  have cs: "convert_screenshot form0 = Inr None" by (simp add: convert_screenshot_def form0_def)
  have p: "postprocess two_lines = [''Something went wrong.'', ''Please try again.'']"
    by (simp add: two_lines_def postprocess_def suggestions_of_def nl_def trim_def js_whitespace_def)
  have n: "two_lines \<noteq> []" by (simp add: two_lines_def)
  have hr: "handle_response (ok_response two_lines) = Inr (postprocess two_lines)"
    using n by (simp add: handle_response_def response_ok_def ok_response_def first_content_def)
  have fs: "fetch services0 = (\<lambda>request. FetchReturns (ok_response two_lines))"
    by (simp add: services0_def)
  have g: "outcome (generateCopySuggestions env0 (fetch services0) badCopy instr img refs ctx)
             = Inr [''Something went wrong.'', ''Please try again.'']" for badCopy instr img refs ctx
    unfolding fs generate_with_response[OF k] hr p by simp
  have f: "Fails storage_down \<noteq> Works" by simp
  show ?thesis
    using persistence_failure_nonfatal[OF c fd pid md bc v l cs g f]
    by simp
qed

section \<open>The reference message a request sends\<close>

lemma network_calls_with_key:
  assumes "OPENROUTER_API_KEY env = Some apiKey" and "apiKey \<noteq> []"
  shows "network_calls (generateCopySuggestions env net badCopy instr img refs ctx)
           = [chat_request_of env apiKey (buildMessages env badCopy instr img refs ctx)]"
  using assms by (simp add: generateCopySuggestions_def Let_def)

text \<open>
  C7. The composer extends the system prompt and adds the message, as
  \<open>reference_files_in_prompt\<close> shows, but the line it writes for a file is the base URL glued to
  the stored URL. The upload route stores the public URL of the object store, which is absolute
  already; for such a URL the line is not the absolute URL of the file. Here the product type
  holds a file stored at \<open>https://files.example/...\<close>, and the request the endpoint sends lists
  it as \<open>http://localhost:3000https://files.example/...\<close>.
\<close>

theorem reference_url_doubled:
  "map rf_url (case pt_reference_files saas of None \<Rightarrow> [] | Some fs \<Rightarrow> fs)
     = [''https://files.example/reference-files/reference-docs/f1-style.pdf'']
   \<and> request_messages (hd (llm_requests (POST_generate env0 services0 db0 (request0 form0)))) ! 1
     = \<lparr>role = User,
        content = Plain (''Reference documents for context (please review these for tone and style guidance):''
          @ [nl] @ ''1. http://localhost:3000https://files.example/reference-files/reference-docs/f1-style.pdf'')\<rparr>"
proof -
  have c: "truthy (OPENROUTER_API_KEY env0)" "truthy (NEXT_PUBLIC_SUPABASE_URL env0)"
          "truthy (SUPABASE_SERVICE_ROLE_KEY env0)"
    by (simp_all add: env0_def truthy_def)
  have k: "OPENROUTER_API_KEY env0 = Some ''sk-test''" "''sk-test'' \<noteq> []" by (simp_all add: env0_def)
  have fd: "form_data (request0 form0) = Inr form0" by (simp add: request0_def)
  have pid: "form_productTypeId form0 = Some ''p1''" "''p1'' \<noteq> []" by (simp_all add: form0_def)
  have md: "''improve_copy'' = or_else (form_mode form0) ''improve_copy''"
    by (simp add: form0_def or_else_def)
  have bc: "''Oops! Something went wrong.'' = or_else (form_badCopy form0) (or_else (form_inputCopy form0) [])"
    by (simp add: form0_def or_else_def)
  have v: "\<not> (''improve_copy'' = ''improve_copy'' \<and> ''Oops! Something went wrong.'' = [])" by simp
  have l: "lookup_product services0 db0 ''p1'' = Inr (Some (''Be clear.'', Some [style_guide]), None)"
    by (simp add: lookup_product_def services0_def select_product_by_id_def db0_def saas_def mobile_def single_def)
  have cs: "convert_screenshot form0 = Inr None" by (simp add: convert_screenshot_def form0_def)
  have p: "postprocess two_lines = [''Something went wrong.'', ''Please try again.'']"
    by (simp add: two_lines_def postprocess_def suggestions_of_def nl_def trim_def js_whitespace_def)
  have n: "two_lines \<noteq> []" by (simp add: two_lines_def)
  have hr: "handle_response (ok_response two_lines) = Inr (postprocess two_lines)"
    using n by (simp add: handle_response_def response_ok_def ok_response_def first_content_def)
  have fs: "fetch services0 = (\<lambda>request. FetchReturns (ok_response two_lines))"
    by (simp add: services0_def)
  have g: "outcome (generateCopySuggestions env0 (fetch services0) badCopy instr img refs ctx)
             = Inr [''Something went wrong.'', ''Please try again.'']" for badCopy instr img refs ctx
    unfolding fs generate_with_response[OF k] hr p by simp
  have u: "map rf_url (case Some [style_guide] of None \<Rightarrow> [] | Some fs \<Rightarrow> fs)
             = [''https://files.example/reference-files/reference-docs/f1-style.pdf'']"
    by (simp add: style_guide_def)
  have one: "show_nat (Suc 0) = ''1''" by code_simp
  have rc: "reference_content env0 [''https://files.example/reference-files/reference-docs/f1-style.pdf'']
             = ''Reference documents for context (please review these for tone and style guidance):''
               @ [nl] @ ''1. http://localhost:3000https://files.example/reference-files/reference-docs/f1-style.pdf''"
    by (simp add: reference_content_def template_def reference_line_def app_url_def env0_def or_else_def one)
  have bm: "buildMessages env0 badCopy instr img
              (Some [''https://files.example/reference-files/reference-docs/f1-style.pdf'']) ctx ! 1
            = \<lparr>role = User, content = Plain (reference_content env0
                 [''https://files.example/reference-files/reference-docs/f1-style.pdf''])\<rparr>"
    for badCopy instr img ctx
    by (simp add: buildMessages_def)
  have q: "llm_requests (POST_generate env0 services0 db0 (request0 form0))
             = [chat_request_of env0 ''sk-test''
                  (buildMessages env0 ''Oops! Something went wrong.'' ''Be clear.'' None
                     (Some [''https://files.example/reference-files/reference-docs/f1-style.pdf''])
                     (Some \<lparr>mode = ''improve_copy'', userType = form_userType form0,
                            errorType = form_errorType form0, canFix = form_canFix form0,
                            surface = form_surface form0\<rparr>))]"
    unfolding POST_generate_generated[OF c fd pid md bc v l cs g] store_and_reply_fields
      network_calls_with_key[OF k] u
    by (rule refl)
  have s: "map rf_url (case pt_reference_files saas of None \<Rightarrow> [] | Some fs \<Rightarrow> fs)
     = [''https://files.example/reference-files/reference-docs/f1-style.pdf'']"
    by (simp add: saas_def style_guide_def)
  have rm: "request_messages (chat_request_of env apiKey messages) = messages" for env apiKey messages
    by (simp add: chat_request_of_def)
  have "request_messages (hd (llm_requests (POST_generate env0 services0 db0 (request0 form0)))) ! 1
     = \<lparr>role = User,
        content = Plain (''Reference documents for context (please review these for tone and style guidance):''
          @ [nl] @ ''1. http://localhost:3000https://files.example/reference-files/reference-docs/f1-style.pdf'')\<rparr>"
    unfolding q list.sel rm bm rc by (rule refl)
  with s show ?thesis by (rule conjI)
qed

theorem reference_url_doubled_witness:
  "content (request_messages (hd (llm_requests (POST_generate env0 services0 db0 (request0 form0)))) ! 1)
     \<noteq> Plain (''Reference documents for context (please review these for tone and style guidance):''
          @ [nl] @ ''1. https://files.example/reference-files/reference-docs/f1-style.pdf'')"
  using reference_url_doubled by simp

end
